theory Spec2Isabelle
  imports Complex_Main
begin

section \<open>Python values of the stock analyzer\<close>

text \<open>
  The analyzer of \<^verbatim>\<open>tools/stock_analyzer.py\<close> computes on numpy/Python floats.
  A float is modelled as a finite real, one of the two infinities, or NaN. Finite
  arithmetic is exact (no rounding error, no overflow) and the two zeros are not
  distinguished; the special values follow IEEE 754, which is what numpy and pandas
  compute with: a division by zero gives an infinity or NaN and never raises, and
  every ordered comparison with NaN is false.
\<close>

datatype pyfloat = Fin real | PInf | NInf | NaN

fun fneg :: "pyfloat \<Rightarrow> pyfloat" where
  "fneg (Fin a) = Fin (- a)"
| "fneg PInf = NInf"
| "fneg NInf = PInf"
| "fneg NaN = NaN"

fun fabs :: "pyfloat \<Rightarrow> pyfloat" where
  "fabs (Fin a) = Fin \<bar>a\<bar>"
| "fabs PInf = PInf"
| "fabs NInf = PInf"
| "fabs NaN = NaN"

fun fadd :: "pyfloat \<Rightarrow> pyfloat \<Rightarrow> pyfloat" where
  "fadd (Fin a) (Fin b) = Fin (a + b)"
| "fadd NaN _ = NaN"
| "fadd _ NaN = NaN"
| "fadd PInf NInf = NaN"
| "fadd NInf PInf = NaN"
| "fadd PInf _ = PInf"
| "fadd _ PInf = PInf"
| "fadd NInf _ = NInf"
| "fadd _ NInf = NInf"

definition fsub :: "pyfloat \<Rightarrow> pyfloat \<Rightarrow> pyfloat" where
  "fsub a b = fadd a (fneg b)"

fun fmul :: "pyfloat \<Rightarrow> pyfloat \<Rightarrow> pyfloat" where
  "fmul (Fin a) (Fin b) = Fin (a * b)"
| "fmul NaN _ = NaN"
| "fmul _ NaN = NaN"
| "fmul (Fin a) PInf = (if a = 0 then NaN else if 0 < a then PInf else NInf)"
| "fmul (Fin a) NInf = (if a = 0 then NaN else if 0 < a then NInf else PInf)"
| "fmul PInf (Fin b) = (if b = 0 then NaN else if 0 < b then PInf else NInf)"
| "fmul NInf (Fin b) = (if b = 0 then NaN else if 0 < b then NInf else PInf)"
| "fmul PInf PInf = PInf"
| "fmul PInf NInf = NInf"
| "fmul NInf PInf = NInf"
| "fmul NInf NInf = PInf"

fun fdiv :: "pyfloat \<Rightarrow> pyfloat \<Rightarrow> pyfloat" where
  "fdiv (Fin a) (Fin b) =
     (if b = 0 then (if a = 0 then NaN else if 0 < a then PInf else NInf)
      else Fin (a / b))"
| "fdiv NaN _ = NaN"
| "fdiv _ NaN = NaN"
| "fdiv (Fin a) PInf = Fin 0"
| "fdiv (Fin a) NInf = Fin 0"
| "fdiv PInf (Fin b) = (if 0 \<le> b then PInf else NInf)"
| "fdiv NInf (Fin b) = (if 0 \<le> b then NInf else PInf)"
| "fdiv PInf PInf = NaN"
| "fdiv PInf NInf = NaN"
| "fdiv NInf PInf = NaN"
| "fdiv NInf NInf = NaN"

fun fsqrt :: "pyfloat \<Rightarrow> pyfloat" where
  "fsqrt (Fin a) = (if a < 0 then NaN else Fin (sqrt a))"
| "fsqrt PInf = PInf"
| "fsqrt NInf = NaN"
| "fsqrt NaN = NaN"

fun flt :: "pyfloat \<Rightarrow> pyfloat \<Rightarrow> bool" where
  "flt (Fin a) (Fin b) = (a < b)"
| "flt NaN _ = False"
| "flt _ NaN = False"
| "flt _ NInf = False"
| "flt PInf _ = False"
| "flt NInf _ = True"
| "flt _ PInf = True"

definition fgt :: "pyfloat \<Rightarrow> pyfloat \<Rightarrow> bool" where
  "fgt a b = flt b a"

definition fle :: "pyfloat \<Rightarrow> pyfloat \<Rightarrow> bool" where
  "fle a b = (a \<noteq> NaN \<and> b \<noteq> NaN \<and> (flt a b \<or> a = b))"

definition fge :: "pyfloat \<Rightarrow> pyfloat \<Rightarrow> bool" where
  "fge a b = fle b a"

text \<open>\<^verbatim>\<open>round(x, n)\<close>: to \<open>n\<close> decimals, a tie going to the even neighbour; an
  infinity or NaN is returned as it is (no error when \<open>n\<close> is given).\<close>

definition rint :: "real \<Rightarrow> int" where
  "rint x =
     (let f = \<lfloor>x\<rfloor>; d = x - of_int f
      in if d < 1 / 2 then f else if 1 / 2 < d then f + 1
         else if even f then f else f + 1)"

fun py_round :: "pyfloat \<Rightarrow> nat \<Rightarrow> pyfloat" where
  "py_round (Fin a) n = Fin (of_int (rint (a * 10 ^ n)) / 10 ^ n)"
| "py_round x n = x"

text \<open>The values a dictionary of the analyzer holds: \<^verbatim>\<open>None\<close>, a float, a Python
  \<^verbatim>\<open>int\<close> (unbounded; a \<^verbatim>\<open>bool\<close> is the int 0 or 1) or a string. A dictionary is a
  map from its string keys. The provider's \<^verbatim>\<open>info\<close> holds ints and floats; the
  numbers the analyzer computes are floats, and so are written its own literals
  \<^verbatim>\<open>0\<close>, \<^verbatim>\<open>1\<close> and \<^verbatim>\<open>50\<close>, which are only compared and reported.\<close>

datatype pyval = PNone | PNum pyfloat | PInt int | PStr string

datatype pyerror = TypeError | IndexError | ProviderError | OverflowError | ZeroDivisionError

type_synonym pydict = "string \<rightharpoonup> pyval"

definition dict_get :: "pydict \<Rightarrow> string \<Rightarrow> pyval \<Rightarrow> pyval" where
  "dict_get d k dflt = (case d k of None \<Rightarrow> dflt | Some v \<Rightarrow> v)"

text \<open>Truthiness, as \<^verbatim>\<open>if value:\<close> tests it: \<^verbatim>\<open>None\<close>, zero and the empty string are
  false; every other number (NaN and the infinities too) and string is true.\<close>

fun truthy :: "pyval \<Rightarrow> bool" where
  "truthy PNone = False"
| "truthy (PNum x) = (x \<noteq> Fin 0)"
| "truthy (PInt i) = (i \<noteq> 0)"
| "truthy (PStr s) = (s \<noteq> [])"

definition bind_err :: "pyerror + 'a \<Rightarrow> ('a \<Rightarrow> pyerror + 'b) \<Rightarrow> pyerror + 'b" where
  "bind_err m f = (case m of Inl e \<Rightarrow> Inl e | Inr v \<Rightarrow> f v)"

text \<open>An int compares with a number by its exact value, whatever its size. It
  becomes a float only in arithmetic with a float, and the conversion raises
  \<^verbatim>\<open>OverflowError\<close> when the int rounds beyond the largest double, that is from
  \<open>2^1024 - 2^970\<close> on. The true division \<^verbatim>\<open>a / b\<close> of two ints is the correctly
  rounded quotient and raises \<^verbatim>\<open>OverflowError\<close> when that is beyond the largest
  double; a division by a zero int or float raises \<^verbatim>\<open>ZeroDivisionError\<close>.\<close>

definition int_value :: "int \<Rightarrow> pyfloat" where
  "int_value i = Fin (real_of_int i)"

definition float_limit :: real where
  "float_limit = 2 ^ 1024 - 2 ^ 970"

definition int_to_float :: "int \<Rightarrow> pyerror + pyfloat" where
  "int_to_float i =
     (if float_limit \<le> \<bar>real_of_int i\<bar> then Inl OverflowError else Inr (int_value i))"

definition float_truediv :: "pyfloat \<Rightarrow> pyfloat \<Rightarrow> pyerror + pyfloat" where
  "float_truediv x y = (if y = Fin 0 then Inl ZeroDivisionError else Inr (fdiv x y))"

fun py_truediv :: "pyval \<Rightarrow> pyval \<Rightarrow> pyerror + pyfloat" where
  "py_truediv (PInt a) (PInt b) =
     (if b = 0 then Inl ZeroDivisionError
      else if float_limit \<le> \<bar>real_of_int a / real_of_int b\<bar> then Inl OverflowError
      else Inr (Fin (real_of_int a / real_of_int b)))"
| "py_truediv (PInt a) (PNum y) = bind_err (int_to_float a) (\<lambda>x. float_truediv x y)"
| "py_truediv (PNum x) (PInt b) = bind_err (int_to_float b) (\<lambda>y. float_truediv x y)"
| "py_truediv (PNum x) (PNum y) = float_truediv x y"
| "py_truediv _ _ = Inl TypeError"

section \<open>Price data and the pandas operations the analyzer calls\<close>

text \<open>
  The price frame has the columns Open, High, Low, Close and Volume; a row is a bar
  of finite numbers. \<^verbatim>\<open>_fetch_data\<close> catches every exception of the provider's
  \<^verbatim>\<open>history\<close> call, and the \<^verbatim>\<open>ValueError\<close> it raises itself for an empty frame, and
  puts an empty frame in place; \<^verbatim>\<open>_fetch_info\<close> puts an empty dictionary in place.
\<close>

record bar =
  Open :: real
  High :: real
  Low :: real
  Close :: real
  Volume :: real


definition fetch_info :: "pyerror + pydict \<Rightarrow> pydict" where
  "fetch_info stock_info = (case stock_info of Inl e \<Rightarrow> Map.empty | Inr d \<Rightarrow> d)"

definition close_column :: "bar list \<Rightarrow> pyfloat list" where
  "close_column data = map (\<lambda>b. Fin (Close b)) data"

text \<open>A Series is the list of its values, NaN marking a missing one. \<^verbatim>\<open>iloc\<close> raises
  \<^verbatim>\<open>IndexError\<close> on an empty Series.\<close>

definition iloc_first :: "pyfloat list \<Rightarrow> pyerror + pyfloat" where
  "iloc_first xs = (case xs of [] \<Rightarrow> Inl IndexError | x # _ \<Rightarrow> Inr x)"

definition iloc_last :: "pyfloat list \<Rightarrow> pyerror + pyfloat" where
  "iloc_last xs = (if xs = [] then Inl IndexError else Inr (last xs))"

definition dropna :: "pyfloat list \<Rightarrow> pyfloat list" where
  "dropna xs = filter (\<lambda>x. x \<noteq> NaN) xs"

definition pct_change :: "pyfloat list \<Rightarrow> pyfloat list" where
  "pct_change xs =
     (case xs of [] \<Rightarrow> []
      | _ # rest \<Rightarrow> NaN # map2 (\<lambda>prev cur. fsub (fdiv cur prev) (Fin 1)) xs rest)"

definition diff :: "pyfloat list \<Rightarrow> pyfloat list" where
  "diff xs =
     (case xs of [] \<Rightarrow> []
      | _ # rest \<Rightarrow> NaN # map2 (\<lambda>prev cur. fsub cur prev) xs rest)"

fun fsum :: "pyfloat list \<Rightarrow> pyfloat" where
  "fsum [] = Fin 0"
| "fsum (x # xs) = fadd x (fsum xs)"

text \<open>\<^verbatim>\<open>mean\<close>, \<^verbatim>\<open>std\<close> (sample, \<^verbatim>\<open>ddof=1\<close>) and \<^verbatim>\<open>min\<close> skip missing values; with
  nothing left (for \<^verbatim>\<open>std\<close>: at most one value left) the result is NaN.\<close>

definition series_mean :: "pyfloat list \<Rightarrow> pyfloat" where
  "series_mean xs =
     (let ys = dropna xs
      in if ys = [] then NaN else fdiv (fsum ys) (Fin (real (length ys))))"

definition series_std :: "pyfloat list \<Rightarrow> pyfloat" where
  "series_std xs =
     (let ys = dropna xs; n = length ys
      in if n \<le> 1 then NaN
         else (let m = fdiv (fsum ys) (Fin (real n));
                   sq = map (\<lambda>y. fmul (fsub y m) (fsub y m)) ys
               in fsqrt (fdiv (fsum sq) (Fin (real (n - 1))))))"

fun nanmin :: "pyfloat \<Rightarrow> pyfloat \<Rightarrow> pyfloat" where
  "nanmin NaN b = b"
| "nanmin a NaN = a"
| "nanmin a b = (if flt b a then b else a)"

fun nanmax :: "pyfloat \<Rightarrow> pyfloat \<Rightarrow> pyfloat" where
  "nanmax NaN b = b"
| "nanmax a NaN = a"
| "nanmax a b = (if flt a b then b else a)"

definition series_min :: "pyfloat list \<Rightarrow> pyfloat" where
  "series_min xs = foldl nanmin NaN xs"

text \<open>\<^verbatim>\<open>cumprod\<close> of a Series with no missing value, and \<^verbatim>\<open>expanding().max()\<close>.\<close>

fun cumprod_from :: "pyfloat \<Rightarrow> pyfloat list \<Rightarrow> pyfloat list" where
  "cumprod_from acc [] = []"
| "cumprod_from acc (x # xs) = fmul acc x # cumprod_from (fmul acc x) xs"

definition cumprod :: "pyfloat list \<Rightarrow> pyfloat list" where
  "cumprod xs = cumprod_from (Fin 1) xs"

fun expanding_max_from :: "pyfloat \<Rightarrow> pyfloat list \<Rightarrow> pyfloat list" where
  "expanding_max_from acc [] = []"
| "expanding_max_from acc (x # xs) = nanmax acc x # expanding_max_from (nanmax acc x) xs"

definition expanding_max :: "pyfloat list \<Rightarrow> pyfloat list" where
  "expanding_max xs = expanding_max_from NaN xs"

text \<open>\<^verbatim>\<open>rolling(window=w)\<close> followed by an aggregate: position \<open>i\<close> holds the aggregate
  of the \<open>w\<close> values ending at \<open>i\<close>, and NaN when fewer than \<open>w\<close> values end there or
  one of them is missing (\<^verbatim>\<open>min_periods\<close> defaults to the window).\<close>

definition rolling :: "nat \<Rightarrow> (pyfloat list \<Rightarrow> pyfloat) \<Rightarrow> pyfloat list \<Rightarrow> pyfloat list" where
  "rolling w agg xs =
     map (\<lambda>i. if i + 1 < w then NaN
              else (let win = take w (drop (i + 1 - w) xs)
                    in if NaN \<in> set win then NaN else agg win))
         [0..<length xs]"

section \<open>\<^verbatim>\<open>calculate_returns\<close>\<close>

definition calculate_returns :: "bar list \<Rightarrow> pyerror + pydict" where
  "calculate_returns data =
     (if data = [] then Inr Map.empty
      else
        (let close_prices = close_column data;
             daily_returns = dropna (pct_change close_prices)
         in bind_err (iloc_last close_prices) (\<lambda>close_last.
            bind_err (iloc_first close_prices) (\<lambda>close_first.
              (let cumulative_return =
                     fmul (fsub (fdiv close_last close_first) (Fin 1)) (Fin 100);
                   annual_volatility =
                     (if 1 < length daily_returns
                      then fmul (fmul (series_std daily_returns) (Fin (sqrt 252))) (Fin 100)
                      else Fin 0);
                   sharpe_ratio =
                     (if fgt (series_std daily_returns) (Fin 0)
                      then fmul (fdiv (series_mean daily_returns) (series_std daily_returns))
                             (Fin (sqrt 252))
                      else Fin 0);
                   cumulative = cumprod (map (fadd (Fin 1)) daily_returns);
                   running_max = expanding_max cumulative;
                   drawdown = map2 (\<lambda>c m. fdiv (fsub c m) m) cumulative running_max;
                   max_drawdown = fmul (series_min drawdown) (Fin 100);
                   positive_days =
                     Fin (real (length (filter (\<lambda>x. fgt x (Fin 0)) daily_returns)))
               in Inr [''cumulative_return_pct'' \<mapsto> PNum (py_round cumulative_return 2),
                       ''annual_volatility_pct'' \<mapsto> PNum (py_round annual_volatility 2),
                       ''sharpe_ratio'' \<mapsto> PNum (py_round sharpe_ratio 2),
                       ''max_drawdown_pct'' \<mapsto> PNum (py_round max_drawdown 2),
                       ''avg_daily_return_pct'' \<mapsto>
                          PNum (py_round (fmul (series_mean daily_returns) (Fin 100)) 3),
                       ''positive_days_pct'' \<mapsto>
                          PNum (py_round
                            (fmul (fdiv positive_days (Fin (real (length daily_returns))))
                               (Fin 100)) 1)])))))"

section \<open>\<^verbatim>\<open>calculate_technical_indicators\<close>\<close>

text \<open>Every \<^verbatim>\<open>iloc[-1]\<close> of this function stands under its own length test, so no
  step of it can raise: the result is the dictionary itself.\<close>

definition current_value :: "pyfloat list \<Rightarrow> pyfloat \<Rightarrow> pyfloat" where
  "current_value xs dflt = (if 0 < length xs then last xs else dflt)"

definition calculate_technical_indicators :: "bar list \<Rightarrow> pydict" where
  "calculate_technical_indicators data =
     (if data = [] then Map.empty
      else
        (let close_prices = close_column data;
             ma20 = rolling 20 series_mean close_prices;
             ma50 = rolling 50 series_mean close_prices;
             ma200 = rolling 200 series_mean close_prices;
             delta = diff close_prices;
             gain = rolling 14 series_mean
                      (map (\<lambda>d. if fgt d (Fin 0) then d else Fin 0) delta);
             loss = rolling 14 series_mean
                      (map (\<lambda>d. fneg (if flt d (Fin 0) then d else Fin 0)) delta);
             rs = map2 fdiv gain loss;
             rsi = map (\<lambda>r. fsub (Fin 100) (fdiv (Fin 100) (fadd (Fin 1) r))) rs;
             bb_middle = rolling 20 series_mean close_prices;
             bb_std = rolling 20 series_std close_prices;
             bb_upper = map2 (\<lambda>m s. fadd m (fmul s (Fin 2))) bb_middle bb_std;
             bb_lower = map2 (\<lambda>m s. fsub m (fmul s (Fin 2))) bb_middle bb_std;
             current_close = current_value close_prices (Fin 0);
             current_ma20 = current_value ma20 (Fin 0);
             current_ma50 = current_value ma50 (Fin 0);
             current_ma200 = current_value ma200 (Fin 0);
             current_rsi = current_value rsi (Fin 50);
             current_bb_upper = current_value bb_upper (Fin 0);
             current_bb_lower = current_value bb_lower (Fin 0);
             ma_signal =
               (if fgt current_close current_ma20 \<and> fgt current_ma20 current_ma50
                   \<and> fgt current_ma50 current_ma200
                then ''Bullish'' else ''Bearish'');
             rsi_signal =
               (if fgt current_rsi (Fin 70) then ''Overbought''
                else if flt current_rsi (Fin 30) then ''Oversold'' else ''Neutral'');
             bb_position =
               (if fgt current_close current_bb_upper then ''Upper Band''
                else if flt current_close current_bb_lower then ''Lower Band''
                else ''Middle Range'')
         in [''current_price'' \<mapsto> PNum (py_round current_close 2),
             ''ma_20'' \<mapsto> PNum (if current_ma20 \<noteq> NaN then py_round current_ma20 2 else Fin 0),
             ''ma_50'' \<mapsto> PNum (if current_ma50 \<noteq> NaN then py_round current_ma50 2 else Fin 0),
             ''ma_200'' \<mapsto> PNum (if current_ma200 \<noteq> NaN then py_round current_ma200 2 else Fin 0),
             ''rsi'' \<mapsto> PNum (if current_rsi \<noteq> NaN then py_round current_rsi 1 else Fin 50),
             ''bb_upper'' \<mapsto>
                PNum (if current_bb_upper \<noteq> NaN then py_round current_bb_upper 2 else Fin 0),
             ''bb_lower'' \<mapsto>
                PNum (if current_bb_lower \<noteq> NaN then py_round current_bb_lower 2 else Fin 0),
             ''ma_signal'' \<mapsto> PStr ma_signal,
             ''rsi_signal'' \<mapsto> PStr rsi_signal,
             ''bb_position'' \<mapsto> PStr bb_position]))"

section \<open>\<^verbatim>\<open>analyze_fundamentals\<close>\<close>

definition metrics :: "(string \<times> string) list" where
  "metrics =
     [(''trailingPE'', ''pe_ratio''),
      (''forwardPE'', ''forward_pe''),
      (''priceToBook'', ''pb_ratio''),
      (''priceToSalesTrailing12Months'', ''ps_ratio''),
      (''enterpriseToRevenue'', ''ev_revenue''),
      (''enterpriseToEbitda'', ''ev_ebitda''),
      (''profitMargins'', ''profit_margin''),
      (''operatingMargins'', ''operating_margin''),
      (''returnOnEquity'', ''roe''),
      (''returnOnAssets'', ''roa''),
      (''debtToEquity'', ''debt_equity''),
      (''currentRatio'', ''current_ratio''),
      (''quickRatio'', ''quick_ratio''),
      (''totalRevenue'', ''revenue''),
      (''revenueGrowth'', ''revenue_growth''),
      (''earningsGrowth'', ''earnings_growth''),
      (''freeCashflow'', ''free_cash_flow''),
      (''operatingCashflow'', ''operating_cash_flow'')]"

text \<open>One round of the loop over \<^verbatim>\<open>metrics\<close>: \<^verbatim>\<open>info.get(yf_key)\<close> is \<^verbatim>\<open>None\<close> for an
  absent key and for a stored \<^verbatim>\<open>None\<close>; a float is rounded to 3 decimals, an int
  is its own rounding, anything else is stored as it is.\<close>

definition extract_metric :: "pydict \<Rightarrow> string \<times> string \<Rightarrow> pydict \<Rightarrow> pydict" where
  "extract_metric info m fundamentals =
     (case info (fst m) of
        None \<Rightarrow> fundamentals
      | Some PNone \<Rightarrow> fundamentals
      | Some (PNum x) \<Rightarrow> fundamentals(snd m \<mapsto> PNum (py_round x 3))
      | Some (PInt i) \<Rightarrow> fundamentals(snd m \<mapsto> PInt i)
      | Some (PStr t) \<Rightarrow> fundamentals(snd m \<mapsto> PStr t))"

text \<open>The composite: \<^verbatim>\<open>market_cap and fundamentals['revenue'] > 0\<close> compares only
  when \<^verbatim>\<open>market_cap\<close> is true; then \<^verbatim>\<open>market_cap / fundamentals['revenue']\<close> is
  divided, which raises for a string and for an int too large, and rounded to 2
  decimals.\<close>

definition revenue_positive :: "pyval \<Rightarrow> pyerror + bool" where
  "revenue_positive revenue =
     (case revenue of
        PNum r \<Rightarrow> Inr (fgt r (Fin 0))
      | PInt i \<Rightarrow> Inr (0 < i)
      | _ \<Rightarrow> Inl TypeError)"

definition analyze_fundamentals :: "pydict \<Rightarrow> pyerror + pydict" where
  "analyze_fundamentals info =
     (let fundamentals = fold (extract_metric info) metrics Map.empty
      in case (fundamentals ''revenue'', info ''marketCap'') of
           (Some revenue, Some market_cap) \<Rightarrow>
             (if truthy market_cap then
                bind_err (revenue_positive revenue) (\<lambda>positive.
                  if positive then
                    bind_err (py_truediv market_cap revenue) (\<lambda>ratio.
                      Inr (fundamentals(''market_cap_to_revenue'' \<mapsto>
                             PNum (py_round ratio 2))))
                  else Inr fundamentals)
              else Inr fundamentals)
         | _ \<Rightarrow> Inr fundamentals)"

section \<open>The scoring rubric of \<^verbatim>\<open>generate_recommendation\<close>\<close>

text \<open>
  Each rubric of the scorer is one \<^verbatim>\<open>if/elif/else\<close> chain over one value. An ordered
  comparison of a number with a number never raises, and an int takes the chain by
  its exact value; an ordered comparison of a string or \<^verbatim>\<open>None\<close> with a number raises
  \<^verbatim>\<open>TypeError\<close>, and every chain starts with such a comparison. An equality test
  (\<^verbatim>\<open>==\<close>) never raises.
\<close>

definition ma_points :: "pyval option \<Rightarrow> int" where
  "ma_points ma_signal =
     (if ma_signal = Some (PStr ''Bullish'') then 15
      else if ma_signal = Some (PStr ''Bearish'') then 5
      else 10)"

function (sequential) rsi_points :: "pyval \<Rightarrow> pyerror + int" where
  "rsi_points (PNum rsi) =
     Inr (if fle (Fin 30) rsi \<and> fle rsi (Fin 70) then 10
          else if flt rsi (Fin 30) then 8
          else 4)"
| "rsi_points (PInt i) = rsi_points (PNum (int_value i))"
| "rsi_points _ = Inl TypeError"
  by pat_completeness auto
termination
  by (relation "measure (\<lambda>v. case v of PInt i \<Rightarrow> 1 | _ \<Rightarrow> 0)") auto

definition bb_points :: "pyval option \<Rightarrow> int" where
  "bb_points bb_pos =
     (if bb_pos = Some (PStr ''Lower Band'') then 10
      else if bb_pos = Some (PStr ''Middle Range'') then 7
      else 4)"

function (sequential) trend_points :: "pyval \<Rightarrow> pyerror + int" where
  "trend_points (PNum cumulative_return) =
     Inr (if fgt cumulative_return (Fin 10) then 15
          else if fgt cumulative_return (Fin 0) then 10
          else if fgt cumulative_return (Fin (- 10)) then 5
          else 0)"
| "trend_points (PInt i) = trend_points (PNum (int_value i))"
| "trend_points _ = Inl TypeError"
  by pat_completeness auto
termination
  by (relation "measure (\<lambda>v. case v of PInt i \<Rightarrow> 1 | _ \<Rightarrow> 0)") auto

text \<open>\<^verbatim>\<open>pe_ratio = fundamentals.get('pe_ratio')\<close>, then \<^verbatim>\<open>if pe_ratio:\<close> decides between
  the table and the 7 points of "no data".\<close>

function (sequential) valuation_points :: "pyval option \<Rightarrow> pyerror + int" where
  "valuation_points None = Inr 7"
| "valuation_points (Some (PNum pe_ratio)) =
     Inr (if truthy (PNum pe_ratio) then
            (if flt pe_ratio (Fin 15) then 15
             else if flt pe_ratio (Fin 25) then 10
             else if flt pe_ratio (Fin 40) then 5
             else 0)
          else 7)"
| "valuation_points (Some (PInt i)) = valuation_points (Some (PNum (int_value i)))"
| "valuation_points (Some v) = (if truthy v then Inl TypeError else Inr 7)"
  by pat_completeness auto
termination
  by (relation "measure (\<lambda>v. case v of Some (PInt i) \<Rightarrow> 1 | _ \<Rightarrow> 0)") auto

function (sequential) profitability_points :: "pyval \<Rightarrow> pyerror + int" where
  "profitability_points (PNum profit_margin) =
     Inr (if fgt profit_margin (Fin (2 / 10)) then 10
          else if fgt profit_margin (Fin (1 / 10)) then 7
          else if fgt profit_margin (Fin 0) then 4
          else 0)"
| "profitability_points (PInt i) = profitability_points (PNum (int_value i))"
| "profitability_points _ = Inl TypeError"
  by pat_completeness auto
termination
  by (relation "measure (\<lambda>v. case v of PInt i \<Rightarrow> 1 | _ \<Rightarrow> 0)") auto

function (sequential) growth_points :: "pyval \<Rightarrow> pyerror + int" where
  "growth_points (PNum revenue_growth) =
     Inr (if fgt revenue_growth (Fin (2 / 10)) then 10
          else if fgt revenue_growth (Fin (1 / 10)) then 7
          else if fgt revenue_growth (Fin 0) then 4
          else 0)"
| "growth_points (PInt i) = growth_points (PNum (int_value i))"
| "growth_points _ = Inl TypeError"
  by pat_completeness auto
termination
  by (relation "measure (\<lambda>v. case v of PInt i \<Rightarrow> 1 | _ \<Rightarrow> 0)") auto

function (sequential) health_points :: "pyval \<Rightarrow> pyerror + int" where
  "health_points (PNum debt_equity) =
     Inr (if flt debt_equity (Fin (1 / 2)) then 15
          else if flt debt_equity (Fin 1) then 10
          else if flt debt_equity (Fin 2) then 5
          else 0)"
| "health_points (PInt i) = health_points (PNum (int_value i))"
| "health_points _ = Inl TypeError"
  by pat_completeness auto
termination
  by (relation "measure (\<lambda>v. case v of PInt i \<Rightarrow> 1 | _ \<Rightarrow> 0)") auto

function (sequential) volatility_risk :: "pyval \<Rightarrow> pyerror + int" where
  "volatility_risk (PNum volatility) =
     Inr (if flt volatility (Fin 20) then 0
          else if flt volatility (Fin 30) then - 10
          else if flt volatility (Fin 40) then - 15
          else - 25)"
| "volatility_risk (PInt i) = volatility_risk (PNum (int_value i))"
| "volatility_risk _ = Inl TypeError"
  by pat_completeness auto
termination
  by (relation "measure (\<lambda>v. case v of PInt i \<Rightarrow> 1 | _ \<Rightarrow> 0)") auto

text \<open>\<^verbatim>\<open>max_drawdown = abs(returns.get('max_drawdown_pct', 0))\<close>; \<^verbatim>\<open>abs\<close> of a string
  or of \<^verbatim>\<open>None\<close> raises \<^verbatim>\<open>TypeError\<close>.\<close>

function (sequential) drawdown_risk :: "pyval \<Rightarrow> pyerror + int" where
  "drawdown_risk (PNum max_drawdown_pct) =
     (let max_drawdown = fabs max_drawdown_pct
      in Inr (if flt max_drawdown (Fin 10) then 0
              else if flt max_drawdown (Fin 20) then - 10
              else if flt max_drawdown (Fin 30) then - 15
              else - 25))"
| "drawdown_risk (PInt i) = drawdown_risk (PNum (int_value i))"
| "drawdown_risk _ = Inl TypeError"
  by pat_completeness auto
termination
  by (relation "measure (\<lambda>v. case v of PInt i \<Rightarrow> 1 | _ \<Rightarrow> 0)") auto

record band =
  band_recommendation :: string
  band_conviction :: string
  band_rationale :: string

definition determine_recommendation :: "int \<Rightarrow> band" where
  "determine_recommendation total_score =
     (if 70 \<le> total_score then
        \<lparr>band_recommendation = ''BUY'', band_conviction = ''STRONG'',
         band_rationale = ''Strong technical and fundamental signals with manageable risk''\<rparr>
      else if 50 \<le> total_score then
        \<lparr>band_recommendation = ''BUY'', band_conviction = ''MODERATE'',
         band_rationale = ''Favorable technical or fundamental signals with some risk concerns''\<rparr>
      else if 30 \<le> total_score then
        \<lparr>band_recommendation = ''HOLD'', band_conviction = ''NEUTRAL'',
         band_rationale = ''Mixed signals with balanced risk-reward profile''\<rparr>
      else if 10 \<le> total_score then
        \<lparr>band_recommendation = ''HOLD'', band_conviction = ''CAUTIOUS'',
         band_rationale = ''Weak signals with elevated risk considerations''\<rparr>
      else
        \<lparr>band_recommendation = ''SELL'', band_conviction = ''MODERATE'',
         band_rationale = ''Poor technical and fundamental signals with high risk''\<rparr>)"

text \<open>The price target and the stop loss, from \<^verbatim>\<open>technicals.get('current_price', 0)\<close>.
  A positive int price is multiplied by a float in every branch, so it is
  converted, which raises when it is too large.\<close>

function (sequential) price_targets :: "string \<Rightarrow> pyval \<Rightarrow> pyerror + pyfloat \<times> pyfloat" where
  "price_targets recommendation (PNum current_price) =
     Inr (if fgt current_price (Fin 0) then
            (if recommendation = ''BUY'' then
               (py_round (fmul current_price (Fin (110 / 100))) 2,
                py_round (fmul current_price (Fin (90 / 100))) 2)
             else if recommendation = ''SELL'' then
               (py_round (fmul current_price (Fin (90 / 100))) 2,
                py_round (fmul current_price (Fin (110 / 100))) 2)
             else
               (py_round current_price 2,
                py_round (fmul current_price (Fin (95 / 100))) 2))
          else (Fin 0, Fin 0))"
| "price_targets recommendation (PInt i) =
     (if 0 < i then
        (if float_limit \<le> \<bar>real_of_int i\<bar> then Inl OverflowError
         else price_targets recommendation (PNum (int_value i)))
      else Inr (Fin 0, Fin 0))"
| "price_targets recommendation _ = Inl TypeError"
  by pat_completeness auto
termination
  by (relation "measure (\<lambda>(r, v). case v of PInt i \<Rightarrow> 1 | _ \<Rightarrow> 0)") auto

definition position_sizing_of :: "string \<Rightarrow> string" where
  "position_sizing_of recommendation =
     (if recommendation = ''BUY'' then ''Moderate (3-5% of portfolio)''
      else if recommendation = ''HOLD'' then ''Minimal (1-2%)''
      else ''Avoid or Reduce'')"

record recommendation =
  recommendation :: string
  conviction :: string
  total_score :: int
  technical_score :: int
  fundamental_score :: int
  risk_score :: int
  rationale :: string
  price_target :: pyfloat
  stop_loss :: pyfloat
  time_horizon :: string
  position_sizing :: string

text \<open>The body of \<^verbatim>\<open>generate_recommendation\<close> after its four analysis calls, in the
  order of the source; the first comparison that raises ends it.\<close>

definition score_recommendation :: "pydict \<Rightarrow> pydict \<Rightarrow> pydict \<Rightarrow> pyerror + recommendation" where
  "score_recommendation returns technicals fundamentals =
     bind_err (rsi_points (dict_get technicals ''rsi'' (PNum (Fin 50)))) (\<lambda>p_rsi.
     bind_err (trend_points (dict_get returns ''cumulative_return_pct'' (PNum (Fin 0)))) (\<lambda>p_trend.
     bind_err (valuation_points (fundamentals ''pe_ratio'')) (\<lambda>p_valuation.
     bind_err (profitability_points (dict_get fundamentals ''profit_margin'' (PNum (Fin 0)))) (\<lambda>p_profit.
     bind_err (growth_points (dict_get fundamentals ''revenue_growth'' (PNum (Fin 0)))) (\<lambda>p_growth.
     bind_err (health_points (dict_get fundamentals ''debt_equity'' (PNum (Fin 1)))) (\<lambda>p_health.
     bind_err (drawdown_risk (dict_get returns ''max_drawdown_pct'' (PNum (Fin 0)))) (\<lambda>r_drawdown.
     bind_err (volatility_risk (dict_get returns ''annual_volatility_pct'' (PNum (Fin 0)))) (\<lambda>r_volatility.
       let technical = ma_points (technicals ''ma_signal'') + p_rsi
                         + bb_points (technicals ''bb_position'') + p_trend;
           fundamental = p_valuation + p_profit + p_growth + p_health;
           risk = r_volatility + r_drawdown;
           total = technical + fundamental + risk;
           b = determine_recommendation total
       in bind_err (price_targets (band_recommendation b)
                      (dict_get technicals ''current_price'' (PNum (Fin 0)))) (\<lambda>(target, stop).
            Inr \<lparr>recommendation = band_recommendation b,
                 conviction = band_conviction b,
                 total_score = total,
                 technical_score = technical,
                 fundamental_score = fundamental,
                 risk_score = risk,
                 rationale = band_rationale b,
                 price_target = target,
                 stop_loss = stop,
                 time_horizon = ''3-6 months'',
                 position_sizing = position_sizing_of (band_recommendation b)\<rparr>)))))))))"

text \<open>\<^verbatim>\<open>generate_recommendation\<close>: the analysis calls in the order of the source
  (\<^verbatim>\<open>get_basic_info\<close> only reads \<^verbatim>\<open>info\<close> with \<^verbatim>\<open>dict.get\<close> and its result is not
  used), then the scorer.\<close>

definition generate_recommendation :: "bar list \<Rightarrow> pydict \<Rightarrow> pyerror + recommendation" where
  "generate_recommendation data info =
     bind_err (calculate_returns data) (\<lambda>returns.
       (let technicals = calculate_technical_indicators data
        in bind_err (analyze_fundamentals info) (\<lambda>fundamentals.
             score_recommendation returns technicals fundamentals)))"

section \<open>Predicates and inputs used in the statements\<close>

text \<open>A value is a float; a value is a number (a float or an int); a dictionary holds
  floats only, or numbers only. The provider's \<^verbatim>\<open>info\<close> holds no string (each metric
  is a number, \<^verbatim>\<open>None\<close> or absent), which is what the fundamentals snapshot of the
  specification is; and every int it holds converts to a float.\<close>

fun is_float :: "pyval \<Rightarrow> bool" where
  "is_float (PNum x) = True"
| "is_float v = False"

fun is_num :: "pyval \<Rightarrow> bool" where
  "is_num (PNum x) = True"
| "is_num (PInt i) = True"
| "is_num v = False"

definition numeric_info :: "pydict \<Rightarrow> bool" where
  "numeric_info info = (\<forall>k s. info k \<noteq> Some (PStr s))"

definition float_sized_info :: "pydict \<Rightarrow> bool" where
  "float_sized_info info = (\<forall>k i. info k = Some (PInt i) \<longrightarrow> \<bar>real_of_int i\<bar> < float_limit)"

definition numeric_dict :: "pydict \<Rightarrow> bool" where
  "numeric_dict d = (\<forall>k. d k = None \<or> (\<exists>x. d k = Some (PNum x)))"

definition number_dict :: "pydict \<Rightarrow> bool" where
  "number_dict d = (\<forall>k. d k = None \<or> (\<exists>x. d k = Some (PNum x)) \<or> (\<exists>i. d k = Some (PInt i)))"

text \<open>Two concrete \<^verbatim>\<open>info\<close> dictionaries: one of ordinary metrics, and one whose market
  capitalisation is an int beyond the range of a float.\<close>

definition example_info :: pydict where
  "example_info =
     [''trailingPE'' \<mapsto> PNum (Fin 12), ''profitMargins'' \<mapsto> PNum (Fin (1 / 4)),
      ''totalRevenue'' \<mapsto> PInt 1000, ''marketCap'' \<mapsto> PInt 5000]"

definition huge_cap_info :: pydict where
  "huge_cap_info = [''totalRevenue'' \<mapsto> PInt 1, ''marketCap'' \<mapsto> PInt (2 ^ 1024)]"

text \<open>A bar whose prices all equal \<open>c\<close>, for concrete price series.\<close>

definition flat_bar :: "real \<Rightarrow> bar" where
  "flat_bar c = \<lparr>Open = c, High = c, Low = c, Close = c, Volume = 0\<rparr>"

text \<open>The RSI at the latest bar reads the last 14 entries of the \<^verbatim>\<open>delta\<close> Series (the
  first entry of the Series is the NaN of \<^verbatim>\<open>diff\<close>): the trailing window.\<close>

definition trailing_deltas :: "bar list \<Rightarrow> pyfloat list" where
  "trailing_deltas data =
     (let delta = diff (close_column data)
      in take 14 (drop (length delta - 14) delta))"

text \<open>Names for the elementwise steps of the RSI computation: \<^verbatim>\<open>delta.where(delta > 0, 0)\<close>,
  \<^verbatim>\<open>-delta.where(delta < 0, 0)\<close> and \<^verbatim>\<open>100 - (100 / (1 + gain / loss))\<close>.\<close>

definition gain_of :: "pyfloat \<Rightarrow> pyfloat" where
  "gain_of d = (if fgt d (Fin 0) then d else Fin 0)"

definition loss_of :: "pyfloat \<Rightarrow> pyfloat" where
  "loss_of d = fneg (if flt d (Fin 0) then d else Fin 0)"

definition rsi_of :: "pyfloat \<Rightarrow> pyfloat \<Rightarrow> pyfloat" where
  "rsi_of g l = fsub (Fin 100) (fdiv (Fin 100) (fadd (Fin 1) (fdiv g l)))"

text \<open>Fifteen bars whose close rises by 1 each day.\<close>

definition rising_bars :: "bar list" where
  "rising_bars = map flat_bar [100, 101, 102, 103, 104, 105, 106, 107, 108, 109, 110, 111, 112, 113, 114]"

section \<open>The scorer: ranges of the rubrics, and when it returns\<close>

lemma rsi_points_range: "rsi_points v = Inr p \<Longrightarrow> 4 \<le> p \<and> p \<le> 10"
  by (cases v) (auto split: if_splits)

lemma trend_points_range: "trend_points v = Inr p \<Longrightarrow> 0 \<le> p \<and> p \<le> 15"
  by (cases v) (auto split: if_splits)

lemma valuation_points_range: "valuation_points v = Inr p \<Longrightarrow> 0 \<le> p \<and> p \<le> 15"
  by (cases v rule: valuation_points.cases) (auto split: if_splits)

lemma profitability_points_range: "profitability_points v = Inr p \<Longrightarrow> 0 \<le> p \<and> p \<le> 10"
  by (cases v) (auto split: if_splits)

lemma growth_points_range: "growth_points v = Inr p \<Longrightarrow> 0 \<le> p \<and> p \<le> 10"
  by (cases v) (auto split: if_splits)

lemma health_points_range: "health_points v = Inr p \<Longrightarrow> 0 \<le> p \<and> p \<le> 15"
  by (cases v) (auto split: if_splits)

lemma volatility_risk_range: "volatility_risk v = Inr p \<Longrightarrow> - 25 \<le> p \<and> p \<le> 0"
  by (cases v) (auto split: if_splits)

lemma drawdown_risk_range: "drawdown_risk v = Inr p \<Longrightarrow> - 25 \<le> p \<and> p \<le> 0"
  by (cases v) (auto simp: Let_def split: if_splits)

lemma ma_points_range: "5 \<le> ma_points s \<and> ma_points s \<le> 15"
  by (simp add: ma_points_def)

lemma bb_points_range: "4 \<le> bb_points s \<and> bb_points s \<le> 10"
  by (simp add: bb_points_def)

lemma score_recommendation_InrD:
  assumes "score_recommendation returns technicals fundamentals = Inr r"
  shows "\<exists>p_rsi p_trend p_val p_profit p_growth p_health r_dd r_vol.
     rsi_points (dict_get technicals ''rsi'' (PNum (Fin 50))) = Inr p_rsi \<and>
     trend_points (dict_get returns ''cumulative_return_pct'' (PNum (Fin 0))) = Inr p_trend \<and>
     valuation_points (fundamentals ''pe_ratio'') = Inr p_val \<and>
     profitability_points (dict_get fundamentals ''profit_margin'' (PNum (Fin 0))) = Inr p_profit \<and>
     growth_points (dict_get fundamentals ''revenue_growth'' (PNum (Fin 0))) = Inr p_growth \<and>
     health_points (dict_get fundamentals ''debt_equity'' (PNum (Fin 1))) = Inr p_health \<and>
     drawdown_risk (dict_get returns ''max_drawdown_pct'' (PNum (Fin 0))) = Inr r_dd \<and>
     volatility_risk (dict_get returns ''annual_volatility_pct'' (PNum (Fin 0))) = Inr r_vol \<and>
     technical_score r = ma_points (technicals ''ma_signal'') + p_rsi
        + bb_points (technicals ''bb_position'') + p_trend \<and>
     fundamental_score r = p_val + p_profit + p_growth + p_health \<and>
     risk_score r = r_vol + r_dd \<and>
     total_score r = technical_score r + fundamental_score r + risk_score r \<and>
     recommendation r = band_recommendation (determine_recommendation (total_score r)) \<and>
     conviction r = band_conviction (determine_recommendation (total_score r)) \<and>
     rationale r = band_rationale (determine_recommendation (total_score r)) \<and>
     time_horizon r = ''3-6 months'' \<and>
     position_sizing r = position_sizing_of (recommendation r) \<and>
     price_targets (recommendation r) (dict_get technicals ''current_price'' (PNum (Fin 0)))
       = Inr (price_target r, stop_loss r)"
  using assms
  unfolding score_recommendation_def bind_err_def Let_def
  by (auto split: sum.splits prod.splits)

lemma score_recommendation_range:
  assumes "score_recommendation returns technicals fundamentals = Inr r"
  shows "13 \<le> technical_score r \<and> technical_score r \<le> 50 \<and>
         0 \<le> fundamental_score r \<and> fundamental_score r \<le> 50 \<and>
         - 50 \<le> risk_score r \<and> risk_score r \<le> 0 \<and>
         total_score r = technical_score r + fundamental_score r + risk_score r"
proof -
  from score_recommendation_InrD [OF assms] obtain p_rsi p_trend p_val p_profit p_growth p_health r_dd r_vol
    where h: "rsi_points (dict_get technicals ''rsi'' (PNum (Fin 50))) = Inr p_rsi"
     "trend_points (dict_get returns ''cumulative_return_pct'' (PNum (Fin 0))) = Inr p_trend"
     "valuation_points (fundamentals ''pe_ratio'') = Inr p_val"
     "profitability_points (dict_get fundamentals ''profit_margin'' (PNum (Fin 0))) = Inr p_profit"
     "growth_points (dict_get fundamentals ''revenue_growth'' (PNum (Fin 0))) = Inr p_growth"
     "health_points (dict_get fundamentals ''debt_equity'' (PNum (Fin 1))) = Inr p_health"
     "drawdown_risk (dict_get returns ''max_drawdown_pct'' (PNum (Fin 0))) = Inr r_dd"
     "volatility_risk (dict_get returns ''annual_volatility_pct'' (PNum (Fin 0))) = Inr r_vol"
     "technical_score r = ma_points (technicals ''ma_signal'') + p_rsi
        + bb_points (technicals ''bb_position'') + p_trend"
     "fundamental_score r = p_val + p_profit + p_growth + p_health"
     "risk_score r = r_vol + r_dd"
     "total_score r = technical_score r + fundamental_score r + risk_score r"
    by blast
  note r = rsi_points_range [OF h(1)] trend_points_range [OF h(2)] valuation_points_range [OF h(3)]
    profitability_points_range [OF h(4)] growth_points_range [OF h(5)] health_points_range [OF h(6)]
    drawdown_risk_range [OF h(7)] volatility_risk_range [OF h(8)]
    ma_points_range [of "technicals ''ma_signal''"] bb_points_range [of "technicals ''bb_position''"]
  show ?thesis using r h(9-12) by linarith
qed

lemma rubrics_total:
  assumes "is_num v"
  shows "\<exists>p. rsi_points v = Inr p" "\<exists>p. trend_points v = Inr p"
    "\<exists>p. profitability_points v = Inr p" "\<exists>p. growth_points v = Inr p"
    "\<exists>p. health_points v = Inr p" "\<exists>p. volatility_risk v = Inr p"
    "\<exists>p. drawdown_risk v = Inr p" "\<exists>p. valuation_points (Some v) = Inr p"
  using assms by (cases v; simp add: Let_def)+

lemma is_float_is_num: "is_float v \<Longrightarrow> is_num v"
  by (cases v) auto

lemma score_recommendation_total:
  assumes "is_float (dict_get technicals ''rsi'' (PNum (Fin 50)))"
    and "is_float (dict_get technicals ''current_price'' (PNum (Fin 0)))"
    and "is_float (dict_get returns ''cumulative_return_pct'' (PNum (Fin 0)))"
    and "is_float (dict_get returns ''max_drawdown_pct'' (PNum (Fin 0)))"
    and "is_float (dict_get returns ''annual_volatility_pct'' (PNum (Fin 0)))"
    and "fundamentals ''pe_ratio'' = None \<or> (\<exists>v. fundamentals ''pe_ratio'' = Some v \<and> is_num v)"
    and "is_num (dict_get fundamentals ''profit_margin'' (PNum (Fin 0)))"
    and "is_num (dict_get fundamentals ''revenue_growth'' (PNum (Fin 0)))"
    and "is_num (dict_get fundamentals ''debt_equity'' (PNum (Fin 1)))"
  shows "\<exists>r. score_recommendation returns technicals fundamentals = Inr r"
proof -
  obtain p1 where p1: "rsi_points (dict_get technicals ''rsi'' (PNum (Fin 50))) = Inr p1"
    using rubrics_total(1) [OF is_float_is_num [OF assms(1)]] by blast
  obtain p2 where p2: "trend_points (dict_get returns ''cumulative_return_pct'' (PNum (Fin 0))) = Inr p2"
    using rubrics_total(2) [OF is_float_is_num [OF assms(3)]] by blast
  have "\<exists>p. valuation_points (fundamentals ''pe_ratio'') = Inr p"
  proof (cases "fundamentals ''pe_ratio''")
    case None
    then show ?thesis by simp
  next
    case (Some v)
    with assms(6) have "is_num v" by simp
    from rubrics_total(8) [OF this] Some show ?thesis by simp
  qed
  then obtain p3 where p3: "valuation_points (fundamentals ''pe_ratio'') = Inr p3" by blast
  obtain p4 where p4: "profitability_points (dict_get fundamentals ''profit_margin'' (PNum (Fin 0))) = Inr p4"
    using rubrics_total(3) [OF assms(7)] by blast
  obtain p5 where p5: "growth_points (dict_get fundamentals ''revenue_growth'' (PNum (Fin 0))) = Inr p5"
    using rubrics_total(4) [OF assms(8)] by blast
  obtain p6 where p6: "health_points (dict_get fundamentals ''debt_equity'' (PNum (Fin 1))) = Inr p6"
    using rubrics_total(5) [OF assms(9)] by blast
  obtain p7 where p7: "drawdown_risk (dict_get returns ''max_drawdown_pct'' (PNum (Fin 0))) = Inr p7"
    using rubrics_total(7) [OF is_float_is_num [OF assms(4)]] by blast
  obtain p8 where p8: "volatility_risk (dict_get returns ''annual_volatility_pct'' (PNum (Fin 0))) = Inr p8"
    using rubrics_total(6) [OF is_float_is_num [OF assms(5)]] by blast
  obtain x where x: "dict_get technicals ''current_price'' (PNum (Fin 0)) = PNum x"
    using assms(2) by (cases "dict_get technicals ''current_price'' (PNum (Fin 0))") auto
  show ?thesis
    unfolding score_recommendation_def
    by (simp add: p1 p2 p3 p4 p5 p6 p7 p8 x bind_err_def Let_def)
qed

lemma numeric_dict_get: "numeric_dict d \<Longrightarrow> is_float dflt \<Longrightarrow> is_float (dict_get d k dflt)"
  unfolding numeric_dict_def dict_get_def
  by (metis is_float.simps(1) option.simps(4,5))

lemma number_dict_get: "number_dict d \<Longrightarrow> is_num dflt \<Longrightarrow> is_num (dict_get d k dflt)"
  unfolding number_dict_def dict_get_def
  by (metis is_num.simps(1,2) option.simps(4,5))

lemma numeric_dict_empty: "numeric_dict Map.empty"
  by (simp add: numeric_dict_def)

lemma numeric_dict_upd: "numeric_dict d \<Longrightarrow> numeric_dict (d(k \<mapsto> PNum x))"
  by (simp add: numeric_dict_def)

lemma number_dict_empty: "number_dict Map.empty"
  by (simp add: number_dict_def)

lemma number_dict_upd:
  "number_dict d \<Longrightarrow> number_dict (d(k \<mapsto> PNum x))"
  "number_dict d \<Longrightarrow> number_dict (d(k \<mapsto> PInt i))"
  by (simp_all add: number_dict_def)

lemma close_column_Nil: "close_column data = [] \<longleftrightarrow> data = []"
  by (simp add: close_column_def)

lemma calculate_returns_Inr:
  "\<exists>r. calculate_returns data = Inr r \<and> numeric_dict r"
proof (cases "data = []")
  case True
  then show ?thesis by (simp add: calculate_returns_def numeric_dict_empty)
next
  case False
  then obtain b bs where d: "data = b # bs" by (cases data) auto
  show ?thesis
    unfolding calculate_returns_def Let_def bind_err_def iloc_last_def iloc_first_def d
    by (simp add: close_column_def numeric_dict_upd numeric_dict_empty)
qed

lemma technicals_numeric:
  "is_float dflt \<Longrightarrow> is_float (dict_get (calculate_technical_indicators data) ''rsi'' dflt)"
  "is_float dflt \<Longrightarrow> is_float (dict_get (calculate_technical_indicators data) ''current_price'' dflt)"
  unfolding calculate_technical_indicators_def Let_def dict_get_def
  by simp_all

lemma extract_metric_number:
  assumes "numeric_info info" and "float_sized_info info"
    and "number_dict f" and "float_sized_info f"
  shows "number_dict (extract_metric info m f) \<and> float_sized_info (extract_metric info m f)"
proof (cases "info (fst m)")
  case None
  with assms show ?thesis by (simp add: extract_metric_def)
next
  case (Some v)
  show ?thesis
  proof (cases v)
    case PNone
    with Some assms show ?thesis by (simp add: extract_metric_def)
  next
    case (PNum x)
    with Some assms show ?thesis
      by (simp add: extract_metric_def number_dict_upd float_sized_info_def del: py_round.simps)
  next
    case (PInt i)
    with Some assms(2) have "\<bar>real_of_int i\<bar> < float_limit"
      unfolding float_sized_info_def by blast
    with Some PInt assms show ?thesis
      by (simp add: extract_metric_def number_dict_upd float_sized_info_def)
  next
    case (PStr t)
    with Some assms(1) show ?thesis by (simp add: numeric_info_def)
  qed
qed

lemma fold_extract_number:
  assumes "numeric_info info" and "float_sized_info info"
  shows "number_dict f \<Longrightarrow> float_sized_info f \<Longrightarrow>
         number_dict (fold (extract_metric info) ms f) \<and>
         float_sized_info (fold (extract_metric info) ms f)"
proof (induction ms arbitrary: f)
  case Nil
  then show ?case by simp
next
  case (Cons m ms)
  from extract_metric_number [OF assms Cons.prems, of m]
  have "number_dict (extract_metric info m f)" "float_sized_info (extract_metric info m f)"
    by simp_all
  from Cons.IH [OF this] show ?case by simp
qed

lemma float_limit_large: "10000 < float_limit"
  by (simp add: float_limit_def)

lemma float_limit_le_pow: "float_limit \<le> 2 ^ 1024"
  by (simp add: float_limit_def)

lemma py_truediv_total:
  assumes "is_num mc" and "is_num rv" and "revenue_positive rv = Inr True"
    and "\<And>i. mc = PInt i \<Longrightarrow> \<bar>real_of_int i\<bar> < float_limit"
    and "\<And>i. rv = PInt i \<Longrightarrow> \<bar>real_of_int i\<bar> < float_limit"
  shows "\<exists>q. py_truediv mc rv = Inr q"
proof (cases rv)
  case (PNum r)
  with assms(3) have r: "r \<noteq> Fin 0" by (auto simp: revenue_positive_def fgt_def)
  show ?thesis
  proof (cases mc)
    case (PNum x)
    with \<open>rv = PNum r\<close> r show ?thesis by (simp add: float_truediv_def)
  next
    case (PInt j)
    with assms(4) have "\<not> float_limit \<le> \<bar>real_of_int j\<bar>" by fastforce
    with PInt \<open>rv = PNum r\<close> r show ?thesis
      by (simp add: float_truediv_def int_to_float_def bind_err_def)
  qed (use assms(1) in auto)
next
  case (PInt i)
  with assms(3) have i: "0 < i" by (simp add: revenue_positive_def)
  from PInt assms(5) have si: "\<not> float_limit \<le> \<bar>real_of_int i\<bar>" by fastforce
  show ?thesis
  proof (cases mc)
    case (PNum x)
    with \<open>rv = PInt i\<close> i si show ?thesis
      by (simp add: float_truediv_def int_to_float_def bind_err_def int_value_def)
  next
    case mcj: (PInt j)
    with assms(4) have sj: "\<bar>real_of_int j\<bar> < float_limit" by blast
    have "1 \<le> real_of_int i" using i by simp
    then have "\<bar>real_of_int j / real_of_int i\<bar> \<le> \<bar>real_of_int j\<bar>"
      by (simp add: divide_le_eq mult_le_cancel_left1 abs_mult)
    with sj have "\<not> float_limit \<le> \<bar>real_of_int j / real_of_int i\<bar>" by linarith
    with mcj \<open>rv = PInt i\<close> i show ?thesis by simp
  qed (use assms(1) in auto)
qed (use assms(2) in auto)

lemma analyze_fundamentals_Inr:
  assumes "numeric_info info" and "float_sized_info info"
  shows "\<exists>f. analyze_fundamentals info = Inr f \<and> number_dict f"
proof -
  let ?f = "fold (extract_metric info) metrics Map.empty"
  have e: "float_sized_info Map.empty" by (simp add: float_sized_info_def)
  from fold_extract_number [OF assms number_dict_empty e, of metrics]
  have nf: "number_dict ?f" and sf: "float_sized_info ?f" by simp_all
  show ?thesis
  proof (cases "?f ''revenue''")
    case None
    then show ?thesis by (simp add: analyze_fundamentals_def Let_def nf)
  next
    case rv: (Some revenue)
    from nf rv have rn: "is_num revenue"
      unfolding number_dict_def by (metis is_num.simps(1,2) option.distinct(1) option.inject)
    from sf rv have rs: "\<And>i. revenue = PInt i \<Longrightarrow> \<bar>real_of_int i\<bar> < float_limit"
      unfolding float_sized_info_def by blast
    obtain b where b: "revenue_positive revenue = Inr b"
      using rn by (cases revenue) (auto simp: revenue_positive_def)
    show ?thesis
    proof (cases "info ''marketCap''")
      case None
      with rv show ?thesis by (simp add: analyze_fundamentals_def Let_def nf)
    next
      case mc: (Some market_cap)
      show ?thesis
      proof (cases "truthy market_cap \<and> b")
        case False
        with rv mc b show ?thesis
          by (auto simp: analyze_fundamentals_def Let_def nf bind_err_def)
      next
        case True
        from mc assms(1) have "\<And>s. market_cap \<noteq> PStr s" by (auto simp: numeric_info_def)
        with True have mn: "is_num market_cap" by (cases market_cap) auto
        from mc assms(2) have ms: "\<And>i. market_cap = PInt i \<Longrightarrow> \<bar>real_of_int i\<bar> < float_limit"
          unfolding float_sized_info_def by blast
        from True b have bt: "revenue_positive revenue = Inr True" by simp
        from py_truediv_total [OF mn rn bt ms rs] obtain q where
          q: "py_truediv market_cap revenue = Inr q" by blast
        from True rv mc b q show ?thesis
          by (simp add: analyze_fundamentals_def Let_def bind_err_def number_dict_upd nf
              del: py_round.simps)
      qed
    qed
  qed
qed

lemma generate_recommendation_total:
  assumes "numeric_info info" and "float_sized_info info"
  shows "\<exists>r. generate_recommendation data info = Inr r"
proof -
  obtain rt where rt: "calculate_returns data = Inr rt" "numeric_dict rt"
    using calculate_returns_Inr by blast
  obtain f where f: "analyze_fundamentals info = Inr f" "number_dict f"
    using analyze_fundamentals_Inr [OF assms] by blast
  have pe: "f ''pe_ratio'' = None \<or> (\<exists>v. f ''pe_ratio'' = Some v \<and> is_num v)"
    using f(2) unfolding number_dict_def by (metis is_num.simps(1,2))
  have "\<exists>r. score_recommendation rt (calculate_technical_indicators data) f = Inr r"
    by (rule score_recommendation_total)
      (simp_all add: technicals_numeric numeric_dict_get number_dict_get rt f pe)
  then show ?thesis
    by (simp add: generate_recommendation_def bind_err_def rt f)
qed

lemma generate_recommendation_InrD:
  assumes "generate_recommendation data info = Inr r"
  shows "\<exists>rt f. calculate_returns data = Inr rt \<and> analyze_fundamentals info = Inr f \<and>
           score_recommendation rt (calculate_technical_indicators data) f = Inr r"
  using assms unfolding generate_recommendation_def bind_err_def Let_def
  by (auto split: sum.splits)

section \<open>The claims about the scorer\<close>

text \<open>
  Claim C1. The recommendation and the conviction that \<^verbatim>\<open>generate_recommendation\<close>
  returns are a step function of the total score it returns, first match from the
  top: at least 70 gives BUY/STRONG, at least 50 BUY/MODERATE, at least 30
  HOLD/NEUTRAL, at least 10 HOLD/CAUTIOUS, anything lower SELL/MODERATE; the bands at
  the scores 75, 55, 35, 15 and 5 are the five of the specification.
\<close>

theorem recommendation_step_function:
  assumes "generate_recommendation data info = Inr r"
  shows "(recommendation r, conviction r) =
           (if 70 \<le> total_score r then (''BUY'', ''STRONG'')
            else if 50 \<le> total_score r then (''BUY'', ''MODERATE'')
            else if 30 \<le> total_score r then (''HOLD'', ''NEUTRAL'')
            else if 10 \<le> total_score r then (''HOLD'', ''CAUTIOUS'')
            else (''SELL'', ''MODERATE''))
         \<and> (recommendation r, conviction r) =
             (band_recommendation (determine_recommendation (total_score r)),
              band_conviction (determine_recommendation (total_score r)))
         \<and> determine_recommendation 75 = \<lparr>band_recommendation = ''BUY'', band_conviction = ''STRONG'',
               band_rationale = ''Strong technical and fundamental signals with manageable risk''\<rparr>
         \<and> determine_recommendation 55 = \<lparr>band_recommendation = ''BUY'', band_conviction = ''MODERATE'',
               band_rationale = ''Favorable technical or fundamental signals with some risk concerns''\<rparr>
         \<and> determine_recommendation 35 = \<lparr>band_recommendation = ''HOLD'', band_conviction = ''NEUTRAL'',
               band_rationale = ''Mixed signals with balanced risk-reward profile''\<rparr>
         \<and> determine_recommendation 15 = \<lparr>band_recommendation = ''HOLD'', band_conviction = ''CAUTIOUS'',
               band_rationale = ''Weak signals with elevated risk considerations''\<rparr>
         \<and> determine_recommendation 5 = \<lparr>band_recommendation = ''SELL'', band_conviction = ''MODERATE'',
               band_rationale = ''Poor technical and fundamental signals with high risk''\<rparr>"
proof -
  from generate_recommendation_InrD [OF assms] obtain rt f where
    s: "score_recommendation rt (calculate_technical_indicators data) f = Inr r" by blast
  from score_recommendation_InrD [OF s] have
    b: "recommendation r = band_recommendation (determine_recommendation (total_score r))"
       "conviction r = band_conviction (determine_recommendation (total_score r))"
    by blast+
  show ?thesis
    unfolding b by (simp add: determine_recommendation_def)
qed

lemma generate_empty_empty:
  "generate_recommendation [] Map.empty =
     Inr \<lparr>recommendation = ''HOLD'', conviction = ''NEUTRAL'', total_score = 41,
          technical_score = 29, fundamental_score = 12, risk_score = 0,
          rationale = ''Mixed signals with balanced risk-reward profile'',
          price_target = Fin 0, stop_loss = Fin 0, time_horizon = ''3-6 months'',
          position_sizing = ''Minimal (1-2%)''\<rparr>"
  by (simp add: generate_recommendation_def calculate_returns_def calculate_technical_indicators_def
      analyze_fundamentals_def metrics_def extract_metric_def score_recommendation_def bind_err_def
      dict_get_def fle_def fgt_def ma_points_def bb_points_def determine_recommendation_def
      position_sizing_of_def)

theorem recommendation_step_function_witness:
  "generate_recommendation [] Map.empty = Inr \<lparr>recommendation = ''HOLD'', conviction = ''NEUTRAL'', total_score = 41,
          technical_score = 29, fundamental_score = 12, risk_score = 0,
          rationale = ''Mixed signals with balanced risk-reward profile'',
          price_target = Fin 0, stop_loss = Fin 0, time_horizon = ''3-6 months'',
          position_sizing = ''Minimal (1-2%)''\<rparr> \<and> (''HOLD'', ''NEUTRAL'') = (if (70::int) \<le> 41 then (''BUY'', ''STRONG'')
            else if (50::int) \<le> 41 then (''BUY'', ''MODERATE'')
            else if (30::int) \<le> 41 then (''HOLD'', ''NEUTRAL'')
            else if (10::int) \<le> 41 then (''HOLD'', ''CAUTIOUS'')
            else (''SELL'', ''MODERATE''))"
  using recommendation_step_function [OF generate_empty_empty] generate_empty_empty
  by simp

text \<open>
  Claim C2. For every price series and every fundamentals mapping, the total score
  that \<^verbatim>\<open>generate_recommendation\<close> produces lies between -50 and 100; and it does
  produce one whenever the mapping holds no string and no int beyond the range of a
  float.
\<close>

theorem total_score_range:
  "(numeric_info info \<and> float_sized_info info \<longrightarrow>
      (\<exists>r. generate_recommendation data info = Inr r)) \<and>
   (\<forall>r. generate_recommendation data info = Inr r \<longrightarrow>
        - 50 \<le> total_score r \<and> total_score r \<le> 100)"
proof (intro conjI allI impI)
  assume "numeric_info info \<and> float_sized_info info"
  then show "\<exists>r. generate_recommendation data info = Inr r"
    using generate_recommendation_total by blast
next
  fix r assume g: "generate_recommendation data info = Inr r"
  from generate_recommendation_InrD [OF g] obtain rt f where
    s: "score_recommendation rt (calculate_technical_indicators data) f = Inr r" by blast
  from score_recommendation_range [OF s]
  show "- 50 \<le> total_score r" by linarith
  from score_recommendation_range [OF s]
  show "total_score r \<le> 100" by linarith
qed

lemma example_info_numeric: "numeric_info example_info" "float_sized_info example_info"
  using float_limit_large
  by (simp_all add: numeric_info_def float_sized_info_def example_info_def)

theorem total_score_range_witness:
  "numeric_info example_info \<and> float_sized_info example_info \<and>
   (\<exists>r. generate_recommendation [flat_bar 100, flat_bar 110] example_info = Inr r
        \<and> - 50 \<le> total_score r \<and> total_score r \<le> 100)"
  using total_score_range [of example_info "[flat_bar 100, flat_bar 110]"] example_info_numeric
  by blast

lemma analyze_fundamentals_empty: "analyze_fundamentals Map.empty = Inr Map.empty"
  by (simp add: analyze_fundamentals_def metrics_def extract_metric_def)

text \<open>
  Claim C3 states a fundamental score of 17 for an empty fundamentals mapping. With
  no price data and no fundamentals the scorer returns 12: the default
  \<^verbatim>\<open>debt_equity = 1\<close> is not below 1, so it falls in the band below 2, worth 5.
\<close>

theorem empty_fundamentals_counterexample:
  "generate_recommendation [] (\<lambda>k. None) =
     Inr \<lparr>recommendation = ''HOLD'', conviction = ''NEUTRAL'', total_score = 41,
          technical_score = 29, fundamental_score = 12, risk_score = 0,
          rationale = ''Mixed signals with balanced risk-reward profile'',
          price_target = Fin 0, stop_loss = Fin 0, time_horizon = ''3-6 months'',
          position_sizing = ''Minimal (1-2%)''\<rparr>
   \<and> (12::int) \<noteq> 17
   \<and> health_points (dict_get (\<lambda>k. None) ''debt_equity'' (PNum (Fin 1))) = Inr 5"
  by (simp add: generate_empty_empty dict_get_def)

text \<open>
  Claim C3, amended. For every price series, \<^verbatim>\<open>generate_recommendation\<close> on an empty
  fundamentals mapping does not raise and its fundamental score is 12: 7 for the
  valuation (no P/E), 0 for profitability, 0 for growth and 5 for financial health
  from the default \<^verbatim>\<open>debt_equity = 1\<close>.
\<close>

theorem empty_fundamentals_score:
  "(\<exists>r. generate_recommendation data (\<lambda>k. None) = Inr r \<and> fundamental_score r = 12) \<and>
   analyze_fundamentals (\<lambda>k. None) = Inr (\<lambda>k. None) \<and>
   valuation_points ((\<lambda>k. None) ''pe_ratio'') = Inr 7 \<and>
   profitability_points (dict_get (\<lambda>k. None) ''profit_margin'' (PNum (Fin 0))) = Inr 0 \<and>
   growth_points (dict_get (\<lambda>k. None) ''revenue_growth'' (PNum (Fin 0))) = Inr 0 \<and>
   health_points (dict_get (\<lambda>k. None) ''debt_equity'' (PNum (Fin 1))) = Inr 5"
proof -
  have ni: "numeric_info (\<lambda>k. None)" "float_sized_info (\<lambda>k. None)"
    by (simp_all add: numeric_info_def float_sized_info_def)
  from generate_recommendation_total [OF ni] obtain r where
    g: "generate_recommendation data (\<lambda>k. None) = Inr r" by blast
  from generate_recommendation_InrD [OF g] obtain rt where
    s: "score_recommendation rt (calculate_technical_indicators data) (\<lambda>k. None) = Inr r"
    by (auto simp: analyze_fundamentals_empty)
  from score_recommendation_InrD [OF s] have "fundamental_score r = 12"
    by (auto simp: dict_get_def fgt_def)
  with g show ?thesis
    by (simp add: analyze_fundamentals_empty dict_get_def fgt_def)
qed

lemma technicals_Nil: "calculate_technical_indicators [] = Map.empty"
  by (simp add: calculate_technical_indicators_def)




lemma generate_no_data_overflow:
  "analyze_fundamentals huge_cap_info = Inl OverflowError"
  "generate_recommendation [] huge_cap_info = Inl OverflowError"
  using float_limit_le_pow
  by (simp_all add: generate_recommendation_def calculate_returns_def calculate_technical_indicators_def
      analyze_fundamentals_def metrics_def extract_metric_def huge_cap_info_def revenue_positive_def
      bind_err_def)



text \<open>
  Claim C7 states that the scorer's \<^verbatim>\<open>else\<close> branch for the MA signal is never taken.
  With no price data the technical mapping is empty, \<^verbatim>\<open>technicals.get('ma_signal')\<close>
  is \<^verbatim>\<open>None\<close>, neither Bullish nor Bearish, and the branch awards its 10 points.
\<close>

theorem ma_signal_neutral_counterexample:
  "calculate_technical_indicators [] ''ma_signal'' = None \<and>
   calculate_technical_indicators [] ''ma_signal'' \<noteq> Some (PStr ''Bullish'') \<and>
   calculate_technical_indicators [] ''ma_signal'' \<noteq> Some (PStr ''Bearish'') \<and>
   ma_points (calculate_technical_indicators [] ''ma_signal'') = 10"
  by (simp add: technicals_Nil ma_points_def)

text \<open>
  Claim C7, amended. For every non-empty price series the MA signal the scorer
  reads is Bullish (15 points) or Bearish (5 points) and the \<^verbatim>\<open>else\<close> branch is not
  taken; for the empty price series there is no MA signal and the \<^verbatim>\<open>else\<close> branch
  awards 10 points.
\<close>

theorem ma_signal_neutral_only_without_data:
  "(data \<noteq> [] \<longrightarrow>
      (calculate_technical_indicators data ''ma_signal'' = Some (PStr ''Bullish'') \<and>
         ma_points (calculate_technical_indicators data ''ma_signal'') = 15
       \<or> calculate_technical_indicators data ''ma_signal'' = Some (PStr ''Bearish'') \<and>
         ma_points (calculate_technical_indicators data ''ma_signal'') = 5)) \<and>
   (data = [] \<longrightarrow>
      calculate_technical_indicators data ''ma_signal'' = None \<and>
      ma_points (calculate_technical_indicators data ''ma_signal'') = 10)"
  by (simp add: calculate_technical_indicators_def Let_def ma_points_def)

theorem ma_signal_neutral_only_without_data_witness:
  "[flat_bar 100] \<noteq> [] \<and>
   (calculate_technical_indicators [flat_bar 100] ''ma_signal'' = Some (PStr ''Bullish'') \<and>
         ma_points (calculate_technical_indicators [flat_bar 100] ''ma_signal'') = 15
       \<or> calculate_technical_indicators [flat_bar 100] ''ma_signal'' = Some (PStr ''Bearish'') \<and>
         ma_points (calculate_technical_indicators [flat_bar 100] ''ma_signal'') = 5)"
  using ma_signal_neutral_only_without_data [of "[flat_bar 100]"]
  by simp

lemma py_round_zero: "py_round (Fin 0) n = Fin 0"
  by (simp add: rint_def)

lemma extract_metric_drop_key:
  assumes "info K = Some z" and "z = PNum (Fin 0) \<or> z = PInt 0"
    and "(fst m = K) = (snd m = P)"
  shows "extract_metric (info(K := None)) m (f(P := None)) = (extract_metric info m f)(P := None)"
proof (cases "fst m = K")
  case True
  with assms(3) have "snd m = P" by simp
  with True assms(1,2) show ?thesis by (auto simp: extract_metric_def)
next
  case False
  with assms(3) have "snd m \<noteq> P" by simp
  with False show ?thesis
    by (auto simp: extract_metric_def fun_upd_twist split: option.splits pyval.splits)
qed

lemma fold_extract_drop_key:
  assumes "info K = Some z" and "z = PNum (Fin 0) \<or> z = PInt 0"
    and "\<forall>m\<in>set ms. (fst m = K) = (snd m = P)"
  shows "fold (extract_metric (info(K := None))) ms (f(P := None))
           = (fold (extract_metric info) ms f)(P := None)"
  using assms(3)
proof (induction ms arbitrary: f)
  case Nil
  then show ?case by simp
next
  case (Cons m ms)
  from Cons.prems have m: "(fst m = K) = (snd m = P)" by simp
  from Cons.prems have ms: "\<forall>m\<in>set ms. (fst m = K) = (snd m = P)" by simp
  have "fold (extract_metric (info(K := None))) (m # ms) (f(P := None))
      = fold (extract_metric (info(K := None))) ms (extract_metric (info(K := None)) m (f(P := None)))"
    by (simp only: fold_simps)
  also have "\<dots> = fold (extract_metric (info(K := None))) ms ((extract_metric info m f)(P := None))"
    using extract_metric_drop_key [of info K z m P f, OF assms(1,2) m] by simp
  also have "\<dots> = (fold (extract_metric info) ms (extract_metric info m f))(P := None)"
    by (rule Cons.IH [OF ms])
  also have "\<dots> = (fold (extract_metric info) (m # ms) f)(P := None)"
    by (simp only: fold_simps)
  finally show ?case .
qed

lemma metrics_pe_key: "\<forall>m\<in>set metrics. (fst m = ''trailingPE'') = (snd m = ''pe_ratio'')"
  by (simp add: metrics_def)

lemma fold_extract_keeps_zero:
  assumes "info K = Some z" and "z = PNum (Fin 0) \<or> z = PInt 0"
  shows "f P = Some z \<or> (K, P) \<in> set ms \<Longrightarrow>
         \<forall>m\<in>set ms. (fst m = K) = (snd m = P) \<Longrightarrow>
         fold (extract_metric info) ms f P = Some z"
proof (induction ms arbitrary: f)
  case Nil
  then show ?case by simp
next
  case (Cons m ms)
  from Cons.prems(2) have m: "(fst m = K) = (snd m = P)" by simp
  from Cons.prems(2) have ms: "\<forall>m\<in>set ms. (fst m = K) = (snd m = P)" by simp
  have "extract_metric info m f P = Some z \<or> (K, P) \<in> set ms"
  proof (cases "fst m = K")
    case True
    with m have "snd m = P" by simp
    with True assms show ?thesis by (auto simp: extract_metric_def rint_def)
  next
    case False
    with m have sm: "snd m \<noteq> P" by simp
    then have "extract_metric info m f P = f P"
      by (simp add: extract_metric_def split: option.splits pyval.splits)
    moreover from False have "m \<noteq> (K, P)" by auto
    ultimately show ?thesis using Cons.prems(1) by auto
  qed
  from Cons.IH [of "extract_metric info m f"] this ms show ?case by simp
qed

lemma fold_extract_pe:
  assumes "info ''trailingPE'' = Some z" and "z = PNum (Fin 0) \<or> z = PInt 0"
  shows "fold (extract_metric info) metrics Map.empty ''pe_ratio'' = Some z"
proof -
  have "(''trailingPE'', ''pe_ratio'') \<in> set metrics" by (simp add: metrics_def)
  then show ?thesis
    using fold_extract_keeps_zero [of info "''trailingPE''" z Map.empty "''pe_ratio''" metrics]
      assms metrics_pe_key by blast
qed

lemma analyze_fundamentals_keeps:
  assumes "analyze_fundamentals info = Inr f" and "k \<noteq> ''market_cap_to_revenue''"
  shows "f k = fold (extract_metric info) metrics Map.empty k"
  using assms unfolding analyze_fundamentals_def Let_def bind_err_def
  by (auto split: option.splits sum.splits if_splits)

lemma score_drop_zero_pe:
  assumes "f ''pe_ratio'' = Some z" and "z = PNum (Fin 0) \<or> z = PInt 0"
  shows "score_recommendation rt t (f(''pe_ratio'' := None)) = score_recommendation rt t f"
  using assms by (auto simp: score_recommendation_def dict_get_def int_value_def)

lemma analyze_fundamentals_drop_zero_pe:
  assumes "info ''trailingPE'' = Some z" and "z = PNum (Fin 0) \<or> z = PInt 0"
  shows "analyze_fundamentals (info(''trailingPE'' := None)) =
           (case analyze_fundamentals info of Inl e \<Rightarrow> Inl e
            | Inr f \<Rightarrow> Inr (f(''pe_ratio'' := None)))"
proof -
  have "fold (extract_metric (info(''trailingPE'' := None))) metrics (Map.empty(''pe_ratio'' := None))
          = (fold (extract_metric info) metrics Map.empty)(''pe_ratio'' := None)"
    using fold_extract_drop_key [of info "''trailingPE''" z metrics "''pe_ratio''" Map.empty]
      assms metrics_pe_key by blast
  then have eq: "fold (extract_metric (info(''trailingPE'' := None))) metrics Map.empty
          = (fold (extract_metric info) metrics Map.empty)(''pe_ratio'' := None)"
    by simp
  show ?thesis
    unfolding analyze_fundamentals_def Let_def eq bind_err_def
    by (auto split: option.splits sum.splits simp: fun_upd_twist)
qed

text \<open>
  Claim C9. A P/E of exactly 0 (the float or the int) earns the 7 points of a missing
  P/E and not the 15 of a P/E below 15: when \<^verbatim>\<open>info\<close> holds \<^verbatim>\<open>trailingPE = 0\<close>, the
  fundamentals hold \<^verbatim>\<open>pe_ratio = 0\<close>, its valuation is 7, and the whole recommendation
  equals the one for the same \<^verbatim>\<open>info\<close> without the key.
\<close>

theorem zero_pe_scored_as_missing:
  "valuation_points (Some (PNum (Fin 0))) = Inr 7 \<and>
   valuation_points (Some (PInt 0)) = Inr 7 \<and>
   valuation_points None = Inr 7 \<and>
   (info ''trailingPE'' = Some (PNum (Fin 0)) \<or> info ''trailingPE'' = Some (PInt 0) \<longrightarrow>
      (\<forall>f. analyze_fundamentals info = Inr f \<longrightarrow>
           f ''pe_ratio'' = info ''trailingPE'' \<and> valuation_points (f ''pe_ratio'') = Inr 7) \<and>
      generate_recommendation data info =
        generate_recommendation data (info(''trailingPE'' := None)))"
proof (intro conjI impI allI)
  show "valuation_points (Some (PNum (Fin 0))) = Inr 7" by simp
  show "valuation_points (Some (PInt 0)) = Inr 7" by (simp add: int_value_def)
  show "valuation_points None = Inr 7" by simp
next
  fix f
  assume "info ''trailingPE'' = Some (PNum (Fin 0)) \<or> info ''trailingPE'' = Some (PInt 0)"
    and a: "analyze_fundamentals info = Inr f"
  then obtain z where z: "info ''trailingPE'' = Some z" "z = PNum (Fin 0) \<or> z = PInt 0"
    by blast
  have pe: "fold (extract_metric info) metrics Map.empty ''pe_ratio'' = Some z"
    using fold_extract_pe [of info z] z by blast
  with analyze_fundamentals_keeps [OF a, of "''pe_ratio''"] z(1)
  show fpe: "f ''pe_ratio'' = info ''trailingPE''" by simp
  with z show "valuation_points (f ''pe_ratio'') = Inr 7" by (auto simp: int_value_def)
next
  assume "info ''trailingPE'' = Some (PNum (Fin 0)) \<or> info ''trailingPE'' = Some (PInt 0)"
  then obtain z where z: "info ''trailingPE'' = Some z" "z = PNum (Fin 0) \<or> z = PInt 0"
    by blast
  have pe: "fold (extract_metric info) metrics Map.empty ''pe_ratio'' = Some z"
    using fold_extract_pe [of info z] z by blast
  have fpe: "f ''pe_ratio'' = Some z" if "analyze_fundamentals info = Inr f" for f
    using analyze_fundamentals_keeps [OF that, of "''pe_ratio''"] pe by simp
  have sc: "score_recommendation rt t (f(''pe_ratio'' := None)) = score_recommendation rt t f"
    if "analyze_fundamentals info = Inr f" for f rt t
    using score_drop_zero_pe [of f z rt t] fpe [OF that] z(2) by blast
  show "generate_recommendation data info =
        generate_recommendation data (info(''trailingPE'' := None))"
    unfolding generate_recommendation_def Let_def bind_err_def
      analyze_fundamentals_drop_zero_pe [of info z, OF z]
    by (auto split: sum.splits simp: sc)
qed

theorem zero_pe_scored_as_missing_witness:
  "[''trailingPE'' \<mapsto> PNum (Fin 0)] ''trailingPE'' = Some (PNum (Fin 0)) \<and>
   generate_recommendation [] [''trailingPE'' \<mapsto> PNum (Fin 0)] =
     generate_recommendation [] ([''trailingPE'' \<mapsto> PNum (Fin 0)](''trailingPE'' := None)) \<and>
   generate_recommendation [] ([''trailingPE'' \<mapsto> PNum (Fin 0)](''trailingPE'' := None)) =
     generate_recommendation [] (\<lambda>k. None)"
  using zero_pe_scored_as_missing [of "[''trailingPE'' \<mapsto> PNum (Fin 0)]" "[]"]
  by simp

section \<open>The claims about the indicators and the return metrics\<close>

lemma length_rolling: "length (rolling w agg xs) = length xs"
  by (simp add: rolling_def)

lemma last_rolling:
  assumes "xs \<noteq> []"
  shows "last (rolling w agg xs) =
           (if length xs < w then NaN
            else (let win = take w (drop (length xs - w) xs)
                  in if NaN \<in> set win then NaN else agg win))"
proof -
  have n: "0 < length xs" using assms by simp
  then have ne: "[0..<length xs] \<noteq> []" by simp
  have l: "last [0..<length xs] = length xs - 1" using n by (simp add: last_upt)
  have a: "(length xs - 1 + 1 < w) = (length xs < w)" using n by auto
  have b: "length xs - 1 + 1 - w = length xs - w" using n by auto
  show ?thesis
    unfolding rolling_def last_map [OF ne] l a b by simp
qed

lemma current_value_rolling_short:
  assumes "xs \<noteq> []" and "length xs < w"
  shows "current_value (rolling w agg xs) dflt = NaN"
  using assms by (simp add: current_value_def length_rolling last_rolling)

text \<open>
  Claim C10. For every non-empty price series of fewer than 200 bars the MA signal
  is Bearish whatever the prices: the 200-bar moving average is NaN at the latest
  bar (reported as 0), and no comparison with NaN holds.
\<close>

theorem short_series_is_bearish:
  assumes "data \<noteq> []" and "length data < 200"
  shows "calculate_technical_indicators data ''ma_signal'' = Some (PStr ''Bearish'') \<and>
         current_value (rolling 200 series_mean (close_column data)) (Fin 0) = NaN \<and>
         calculate_technical_indicators data ''ma_200'' = Some (PNum (Fin 0))"
proof -
  have c: "close_column data \<noteq> []" "length (close_column data) < 200"
    using assms by (simp_all add: close_column_def)
  have m: "current_value (rolling 200 series_mean (close_column data)) (Fin 0) = NaN"
    by (rule current_value_rolling_short [OF c])
  show ?thesis
    using assms(1) by (simp add: calculate_technical_indicators_def Let_def m fgt_def)
qed

theorem short_series_is_bearish_witness:
  "[flat_bar 3, flat_bar 2, flat_bar 1] \<noteq> [] \<and> length [flat_bar 3, flat_bar 2, flat_bar 1] < 200 \<and>
   calculate_technical_indicators [flat_bar 3, flat_bar 2, flat_bar 1] ''ma_signal''
     = Some (PStr ''Bearish'')"
  using short_series_is_bearish [of "[flat_bar 3, flat_bar 2, flat_bar 1]"]
  by simp

lemma calculate_returns_one_bar:
  "calculate_returns [b] =
     Inr [''cumulative_return_pct'' \<mapsto> PNum (if Close b = 0 then NaN else Fin 0),
          ''annual_volatility_pct'' \<mapsto> PNum (Fin 0),
          ''sharpe_ratio'' \<mapsto> PNum (Fin 0),
          ''max_drawdown_pct'' \<mapsto> PNum NaN,
          ''avg_daily_return_pct'' \<mapsto> PNum NaN,
          ''positive_days_pct'' \<mapsto> PNum NaN]"
  by (simp add: calculate_returns_def close_column_def pct_change_def dropna_def bind_err_def
      iloc_last_def iloc_first_def series_std_def series_mean_def fsub_def fgt_def cumprod_def
      expanding_max_def series_min_def Let_def rint_def)

text \<open>
  Claim C4 states an empty or unavailable result for every series of fewer than two
  bars. A series of one bar gets a full mapping that is not the empty one: the
  cumulative return, the volatility and the Sharpe ratio are the number 0, and only
  the other three metrics are NaN.
\<close>

theorem returns_under_two_bars_counterexample:
  "calculate_returns [flat_bar 100] =
     Inr [''cumulative_return_pct'' \<mapsto> PNum (Fin 0),
          ''annual_volatility_pct'' \<mapsto> PNum (Fin 0),
          ''sharpe_ratio'' \<mapsto> PNum (Fin 0),
          ''max_drawdown_pct'' \<mapsto> PNum NaN,
          ''avg_daily_return_pct'' \<mapsto> PNum NaN,
          ''positive_days_pct'' \<mapsto> PNum NaN] \<and>
   calculate_returns [flat_bar 100] \<noteq> Inr (\<lambda>k. None)"
  by (simp add: calculate_returns_one_bar flat_bar_def)

text \<open>
  Claim C4, amended. For every price series of fewer than two bars
  \<^verbatim>\<open>calculate_returns\<close> does not raise: with no bar it returns the empty mapping, and
  with one bar the mapping of all six metrics in which the maximum drawdown, the
  average daily return and the share of positive days are NaN, the volatility and
  the Sharpe ratio are 0 and the cumulative return is 0 (NaN when the close is 0).
\<close>

theorem returns_under_two_bars:
  assumes "length data < 2"
  shows "calculate_returns data =
     Inr (if data = [] then (\<lambda>k. None)
          else [''cumulative_return_pct'' \<mapsto> PNum (if Close (hd data) = 0 then NaN else Fin 0),
                ''annual_volatility_pct'' \<mapsto> PNum (Fin 0),
                ''sharpe_ratio'' \<mapsto> PNum (Fin 0),
                ''max_drawdown_pct'' \<mapsto> PNum NaN,
                ''avg_daily_return_pct'' \<mapsto> PNum NaN,
                ''positive_days_pct'' \<mapsto> PNum NaN])"
proof (cases data)
  case Nil
  then show ?thesis by (simp add: calculate_returns_def)
next
  case (Cons b bs)
  with assms have "data = [b]" by simp
  then show ?thesis by (simp add: calculate_returns_one_bar)
qed

theorem returns_under_two_bars_witness:
  "length [flat_bar 100] < 2 \<and> calculate_returns [flat_bar 100] =
     Inr [''cumulative_return_pct'' \<mapsto> PNum (Fin 0),
          ''annual_volatility_pct'' \<mapsto> PNum (Fin 0),
          ''sharpe_ratio'' \<mapsto> PNum (Fin 0),
          ''max_drawdown_pct'' \<mapsto> PNum NaN,
          ''avg_daily_return_pct'' \<mapsto> PNum NaN,
          ''positive_days_pct'' \<mapsto> PNum NaN]"
  using returns_under_two_bars [of "[flat_bar 100]"]
  by (simp add: flat_bar_def)

lemma fsum_replicate_zero: "fsum (replicate m (Fin 0)) = Fin 0"
  by (induction m) auto

lemma dropna_replicate_fin: "dropna (replicate m (Fin a)) = replicate m (Fin a)"
  by (simp add: dropna_def)

lemma series_mean_replicate_zero: "0 < m \<Longrightarrow> series_mean (replicate m (Fin 0)) = Fin 0"
  by (simp add: series_mean_def dropna_replicate_fin fsum_replicate_zero)

lemma series_std_replicate_zero:
  "series_std (replicate m (Fin 0)) = (if m \<le> 1 then NaN else Fin 0)"
  by (simp add: series_std_def dropna_replicate_fin fsum_replicate_zero fsub_def Let_def)

lemma cumprod_from_replicate_one: "cumprod_from (Fin 1) (replicate m (Fin 1)) = replicate m (Fin 1)"
  by (induction m) auto

lemma expanding_max_from_replicate_one:
  "acc = NaN \<or> acc = Fin 1 \<Longrightarrow>
   expanding_max_from acc (replicate m (Fin 1)) = replicate m (Fin 1)"
  by (induction m arbitrary: acc) auto

lemma foldl_nanmin_replicate_zero:
  "acc = NaN \<or> acc = Fin 0 \<Longrightarrow> 0 < m \<Longrightarrow> foldl nanmin acc (replicate m (Fin 0)) = Fin 0"
proof (induction m arbitrary: acc)
  case 0
  then show ?case by simp
next
  case (Suc m)
  have s: "nanmin acc (Fin 0) = Fin 0" using Suc.prems(1) by auto
  show ?case
  proof (cases m)
    case 0
    then show ?thesis by (simp add: s)
  next
    case (Suc k)
    then have "foldl nanmin (Fin 0) (replicate m (Fin 0)) = Fin 0"
      using Suc.IH [of "Fin 0"] by simp
    then show ?thesis by (simp add: s)
  qed
qed

lemma close_column_constant:
  assumes "\<forall>b\<in>set data. Close b = c"
  shows "close_column data = replicate (length data) (Fin c)"
  using assms unfolding close_column_def
  by (induction data) auto

lemma map2_replicate: "map2 f (replicate k a) (replicate m b) = replicate (min k m) (f a b)"
  by (simp add: zip_replicate)

lemma pct_change_constant:
  assumes "c \<noteq> 0"
  shows "pct_change (replicate (Suc m) (Fin c)) = NaN # replicate m (Fin 0)"
proof -
  have "map2 (\<lambda>prev cur. fsub (fdiv cur prev) (Fin 1)) (replicate (Suc m) (Fin c)) (replicate m (Fin c))
          = replicate (min (Suc m) m) (fsub (fdiv (Fin c) (Fin c)) (Fin 1))"
    by (rule map2_replicate)
  also have "\<dots> = replicate m (Fin 0)"
    using assms by (simp add: fsub_def)
  finally show ?thesis by (simp add: pct_change_def)
qed

text \<open>
  Claim C8. For every price series of at least two bars whose close is one constant
  (not zero; a close is positive in a price series), \<^verbatim>\<open>calculate_returns\<close> returns
  the annual volatility 0, the Sharpe ratio 0, the maximum drawdown 0 and the
  cumulative return 0; the Sharpe ratio's zero (or undefined) standard deviation
  takes the \<^verbatim>\<open>else\<close> branch, and nothing raises.
\<close>

theorem constant_close_returns:
  assumes "2 \<le> length data" and "\<forall>b\<in>set data. Close b = c" and "c \<noteq> 0"
  shows "calculate_returns data =
     Inr [''cumulative_return_pct'' \<mapsto> PNum (Fin 0),
          ''annual_volatility_pct'' \<mapsto> PNum (Fin 0),
          ''sharpe_ratio'' \<mapsto> PNum (Fin 0),
          ''max_drawdown_pct'' \<mapsto> PNum (Fin 0),
          ''avg_daily_return_pct'' \<mapsto> PNum (Fin 0),
          ''positive_days_pct'' \<mapsto> PNum (Fin 0)]"
proof -
  obtain m where n: "length data = Suc (Suc m)"
    using assms(1) by (cases "length data"; cases "length data - 1") auto
  have ne: "data \<noteq> []" using n by auto
  have cc: "close_column data = replicate (Suc (Suc m)) (Fin c)"
    using close_column_constant [OF assms(2)] n by simp
  have dr: "dropna (pct_change (close_column data)) = replicate (Suc m) (Fin 0)"
    unfolding cc pct_change_constant [OF assms(3)]
    by (simp add: dropna_def)
  have il: "iloc_last (close_column data) = Inr (Fin c)"
    unfolding cc iloc_last_def by simp
  have ifi: "iloc_first (close_column data) = Inr (Fin c)"
    unfolding cc iloc_first_def by simp
  have one: "map (fadd (Fin 1)) (replicate (Suc m) (Fin 0)) = replicate (Suc m) (Fin 1)"
    by simp
  have cum: "cumprod (replicate (Suc m) (Fin 1)) = replicate (Suc m) (Fin 1)"
    unfolding cumprod_def by (rule cumprod_from_replicate_one)
  have emax: "expanding_max (replicate (Suc m) (Fin 1)) = replicate (Suc m) (Fin 1)"
    unfolding expanding_max_def by (rule expanding_max_from_replicate_one) simp
  have dd: "map2 (\<lambda>c m. fdiv (fsub c m) m) (replicate (Suc m) (Fin 1)) (replicate (Suc m) (Fin 1))
              = replicate (Suc m) (Fin 0)"
    using map2_replicate [of "\<lambda>c m. fdiv (fsub c m) m" "Suc m" "Fin 1" "Suc m" "Fin 1"]
    by (simp add: fsub_def)
  have smin: "series_min (replicate (Suc m) (Fin 0)) = Fin 0"
    unfolding series_min_def by (rule foldl_nanmin_replicate_zero) simp_all
  have pos: "filter (\<lambda>x. fgt x (Fin 0)) (replicate (Suc m) (Fin 0)) = []"
    by (simp add: fgt_def)
  have mean: "series_mean (replicate (Suc m) (Fin 0)) = Fin 0"
    by (rule series_mean_replicate_zero) simp
  have r0: "rint 0 = 0" by (simp add: rint_def)
  show ?thesis
    unfolding calculate_returns_def Let_def dr il ifi one cum emax dd smin pos mean
      series_std_replicate_zero bind_err_def
    using ne assms(3) by (simp add: fsub_def fgt_def r0)
qed

theorem constant_close_returns_witness:
  "2 \<le> length [flat_bar 100, flat_bar 100, flat_bar 100] \<and>
   map Close [flat_bar 100, flat_bar 100, flat_bar 100] = [100, 100, 100] \<and> (100::real) \<noteq> 0 \<and>
   calculate_returns [flat_bar 100, flat_bar 100, flat_bar 100] =
     Inr [''cumulative_return_pct'' \<mapsto> PNum (Fin 0),
          ''annual_volatility_pct'' \<mapsto> PNum (Fin 0),
          ''sharpe_ratio'' \<mapsto> PNum (Fin 0),
          ''max_drawdown_pct'' \<mapsto> PNum (Fin 0),
          ''avg_daily_return_pct'' \<mapsto> PNum (Fin 0),
          ''positive_days_pct'' \<mapsto> PNum (Fin 0)]"
  using constant_close_returns [of "[flat_bar 100, flat_bar 100, flat_bar 100]" 100]
  by (simp add: flat_bar_def)

section \<open>The relative strength index\<close>

lemma rint_bounds:
  assumes "of_int a \<le> x" and "x \<le> of_int b"
  shows "a \<le> rint x \<and> rint x \<le> b"
proof -
  have fl: "a \<le> \<lfloor>x\<rfloor>" using assms(1) by (simp add: le_floor_iff)
  have fu: "\<lfloor>x\<rfloor> \<le> b" using assms(2) by (simp add: floor_le_iff)
  show ?thesis
  proof (cases "x - of_int \<lfloor>x\<rfloor> < 1 / 2")
    case True
    then show ?thesis using fl fu by (simp add: rint_def Let_def)
  next
    case False
    then have "x \<noteq> of_int b" by auto
    with assms(2) have "x < of_int b" by simp
    then have "\<lfloor>x\<rfloor> < b" by (simp add: floor_less_iff)
    then have "\<lfloor>x\<rfloor> + 1 \<le> b" by simp
    then show ?thesis using fl fu by (auto simp: rint_def Let_def)
  qed
qed

lemma py_round_percent:
  assumes "0 \<le> v" and "v \<le> 100"
  shows "\<exists>u. py_round (Fin v) 1 = Fin u \<and> 0 \<le> u \<and> u \<le> 100"
proof -
  have "of_int 0 \<le> v * 10" "v * 10 \<le> of_int 1000" using assms by simp_all
  from rint_bounds [OF this] have "0 \<le> rint (v * 10)" "rint (v * 10) \<le> 1000" by simp_all
  then have "0 \<le> real_of_int (rint (v * 10)) / 10" "real_of_int (rint (v * 10)) / 10 \<le> 100"
    by simp_all
  then show ?thesis by (intro exI [of _ "real_of_int (rint (v * 10)) / 10"]) simp
qed

lemma py_round_hundred: "py_round (Fin 100) 1 = Fin 100"
  by (simp add: rint_def)

lemma rsi_of_cases:
  assumes "0 \<le> G" and "0 \<le> L"
  shows "(L = 0 \<and> G = 0 \<longrightarrow> rsi_of (Fin G) (Fin L) = NaN) \<and>
         (L = 0 \<and> 0 < G \<longrightarrow> rsi_of (Fin G) (Fin L) = Fin 100) \<and>
         (0 < L \<longrightarrow> (\<exists>v. rsi_of (Fin G) (Fin L) = Fin v \<and> 0 \<le> v \<and> v < 100))"
proof (intro conjI impI)
  assume "L = 0 \<and> G = 0"
  then show "rsi_of (Fin G) (Fin L) = NaN" by (simp add: rsi_of_def fsub_def)
next
  assume "L = 0 \<and> 0 < G"
  then show "rsi_of (Fin G) (Fin L) = Fin 100" by (simp add: rsi_of_def fsub_def)
next
  assume L: "0 < L"
  have q: "0 \<le> G / L" using assms(1) L by simp
  then have p: "1 \<le> 1 + G / L" by simp
  then have nz: "1 + G / L \<noteq> 0" by linarith
  have e: "rsi_of (Fin G) (Fin L) = Fin (100 - 100 / (1 + G / L))"
    using L nz by (simp add: rsi_of_def fsub_def)
  have "0 < 100 / (1 + G / L)" using p by simp
  moreover have "100 / (1 + G / L) \<le> 100" using p by (simp add: divide_le_eq)
  ultimately show "\<exists>v. rsi_of (Fin G) (Fin L) = Fin v \<and> 0 \<le> v \<and> v < 100"
    using e by simp
qed

lemma rsi_of_NaN: "rsi_of NaN l = NaN"
  by (simp add: rsi_of_def fsub_def)

lemma fsum_nonneg:
  assumes "\<forall>y\<in>set ys. \<exists>x\<ge>0. y = Fin x"
  shows "\<exists>s\<ge>0. fsum ys = Fin s \<and> (s = 0 \<longleftrightarrow> (\<forall>y\<in>set ys. y = Fin 0))"
  using assms
proof (induction ys)
  case Nil
  then show ?case by simp
next
  case (Cons y ys)
  then obtain x where x: "0 \<le> x" "y = Fin x" by auto
  from Cons obtain s where s: "0 \<le> s" "fsum ys = Fin s" "s = 0 \<longleftrightarrow> (\<forall>y\<in>set ys. y = Fin 0)"
    by auto
  have "fsum (y # ys) = Fin (x + s)" using x s by simp
  moreover have "0 \<le> x + s" using x s by simp
  moreover have "(x + s = 0) \<longleftrightarrow> (\<forall>z\<in>set (y # ys). z = Fin 0)"
    using x s by (auto simp: add_nonneg_eq_0_iff)
  ultimately show ?case by blast
qed

lemma series_mean_nonneg:
  assumes "ys \<noteq> []" and "\<forall>y\<in>set ys. \<exists>x\<ge>0. y = Fin x"
  shows "\<exists>m\<ge>0. series_mean ys = Fin m \<and> (m = 0 \<longleftrightarrow> (\<forall>y\<in>set ys. y = Fin 0))"
proof -
  have nn: "NaN \<notin> set ys" using assms(2) by auto
  then have d: "dropna ys = ys" unfolding dropna_def by (induction ys) auto
  from fsum_nonneg [OF assms(2)] obtain s where
    s: "0 \<le> s" "fsum ys = Fin s" "s = 0 \<longleftrightarrow> (\<forall>y\<in>set ys. y = Fin 0)" by blast
  have len: "real (length ys) > 0" using assms(1) by simp
  have "series_mean ys = Fin (s / real (length ys))"
    using assms(1) len by (simp add: series_mean_def d s(2))
  moreover have "0 \<le> s / real (length ys)" using s(1) len by simp
  moreover have "(s / real (length ys) = 0) \<longleftrightarrow> (\<forall>y\<in>set ys. y = Fin 0)"
    using s(3) len by simp
  ultimately show ?thesis by blast
qed

lemma last_map2:
  assumes "length xs = length ys" and "xs \<noteq> []"
  shows "last (map2 f xs ys) = f (last xs) (last ys)"
proof -
  have y: "ys \<noteq> []" using assms by auto
  then have z: "zip xs ys \<noteq> []" using assms(2) by (cases xs; cases ys) auto
  show ?thesis
    by (simp add: last_map [OF z] last_zip [OF assms(2) y assms(1)])
qed

lemma length_diff: "length (diff xs) = length xs"
  by (cases xs) (auto simp: diff_def)

lemma diff_elems:
  assumes "d \<in> set (diff (close_column data))"
  shows "d = NaN \<or> (\<exists>x. d = Fin x)"
proof (cases data)
  case Nil
  with assms show ?thesis by (simp add: diff_def close_column_def)
next
  case (Cons b bs)
  have "set (map2 (\<lambda>prev cur. fsub cur prev) (map (\<lambda>b. Fin (Close b)) (b # bs))
               (map (\<lambda>b. Fin (Close b)) bs)) \<subseteq> range Fin"
    unfolding zip_map_map by (auto simp: fsub_def)
  with assms Cons show ?thesis
    by (auto simp: diff_def close_column_def)
qed

lemma gain_of_fin: "d = NaN \<or> (\<exists>x. d = Fin x) \<Longrightarrow> \<exists>x\<ge>0. gain_of d = Fin x"
  by (auto simp: gain_of_def fgt_def)

lemma loss_of_fin: "d = NaN \<or> (\<exists>x. d = Fin x) \<Longrightarrow> \<exists>x\<ge>0. loss_of d = Fin x"
  by (auto simp: loss_of_def)

lemma gain_of_zero: "d = NaN \<or> (\<exists>x. d = Fin x) \<Longrightarrow> (gain_of d = Fin 0) = (\<not> fgt d (Fin 0))"
  by (auto simp: gain_of_def fgt_def)

lemma loss_of_zero: "d = NaN \<or> (\<exists>x. d = Fin x) \<Longrightarrow> (loss_of d = Fin 0) = (\<not> flt d (Fin 0))"
  by (auto simp: loss_of_def)

lemma trailing_deltas_elems:
  "d \<in> set (trailing_deltas data) \<Longrightarrow> d = NaN \<or> (\<exists>x. d = Fin x)"
  unfolding trailing_deltas_def Let_def
  by (meson diff_elems in_set_dropD in_set_takeD)

lemma length_trailing_deltas: "14 \<le> length data \<Longrightarrow> length (trailing_deltas data) = 14"
  by (simp add: trailing_deltas_def Let_def length_diff close_column_def)

lemma technicals_rsi:
  assumes "data \<noteq> []"
  shows "calculate_technical_indicators data ''rsi'' =
     Some (PNum (let cur = rsi_of
                     (last (rolling 14 series_mean (map gain_of (diff (close_column data)))))
                     (last (rolling 14 series_mean (map loss_of (diff (close_column data)))))
                 in if cur \<noteq> NaN then py_round cur 1 else Fin 50))"
proof -
  let ?g = "rolling 14 series_mean (map gain_of (diff (close_column data)))"
  let ?l = "rolling 14 series_mean (map loss_of (diff (close_column data)))"
  have len: "length ?g = length ?l" by (simp add: length_rolling)
  have ne: "?g \<noteq> []"
    using assms by (simp add: rolling_def length_diff close_column_def)
  have z: "zip ?g ?l \<noteq> []" using ne len by (cases ?g; cases ?l) auto
  have l2: "last (map2 fdiv ?g ?l) = fdiv (last ?g) (last ?l)"
    by (rule last_map2 [OF len ne])
  have m2: "map2 fdiv ?g ?l \<noteq> []" using z by simp
  have cur: "current_value (map (\<lambda>r. fsub (Fin 100) (fdiv (Fin 100) (fadd (Fin 1) r))) (map2 fdiv ?g ?l)) (Fin 50)
       = rsi_of (last ?g) (last ?l)"
    unfolding current_value_def using m2 by (simp add: last_map l2 rsi_of_def del: map_map)
  have gl: "(\<lambda>d. if fgt d (Fin 0) then d else Fin 0) = gain_of"
    "(\<lambda>d. fneg (if flt d (Fin 0) then d else Fin 0)) = loss_of"
    by (auto simp: gain_of_def loss_of_def)
  show ?thesis
    unfolding calculate_technical_indicators_def Let_def gl cur
    using assms by simp
qed

lemma last_rolling_mean_window:
  assumes "14 \<le> length data" and "\<And>d. d = NaN \<or> (\<exists>x. d = Fin x) \<Longrightarrow> \<exists>x\<ge>0. h d = Fin x"
  shows "\<exists>m\<ge>0. last (rolling 14 series_mean (map h (diff (close_column data)))) = Fin m \<and>
           (m = 0 \<longleftrightarrow> (\<forall>d\<in>set (trailing_deltas data). h d = Fin 0))"
proof -
  let ?xs = "map h (diff (close_column data))"
  have n: "length ?xs = length data" by (simp add: length_diff close_column_def)
  have ne: "?xs \<noteq> []" using assms(1) n by auto
  have w: "take 14 (drop (length ?xs - 14) ?xs) = map h (trailing_deltas data)"
    by (simp add: trailing_deltas_def Let_def take_map drop_map)
  have fin: "\<forall>y\<in>set (map h (trailing_deltas data)). \<exists>x\<ge>0. y = Fin x"
    using assms(2) trailing_deltas_elems by auto
  then have nn: "NaN \<notin> set (map h (trailing_deltas data))" by auto
  have wne: "map h (trailing_deltas data) \<noteq> []"
    using length_trailing_deltas [OF assms(1)] by auto
  have l: "last (rolling 14 series_mean ?xs) = series_mean (map h (trailing_deltas data))"
    unfolding last_rolling [OF ne] w Let_def using nn assms(1) n by simp
  from series_mean_nonneg [OF wne fin] show ?thesis
    unfolding l by auto
qed

lemma last_rolling_mean_short:
  assumes "data \<noteq> []" and "length data < 14"
  shows "last (rolling 14 series_mean (map h (diff (close_column data)))) = NaN"
proof -
  let ?xs = "map h (diff (close_column data))"
  have n: "length ?xs = length data" by (simp add: length_diff close_column_def)
  have ne: "?xs \<noteq> []" using assms(1) n by auto
  show ?thesis unfolding last_rolling [OF ne] using assms(2) n by simp
qed

lemma rsi_reported:
  assumes "data \<noteq> []"
  shows "(\<exists>v. calculate_technical_indicators data ''rsi'' = Some (PNum (Fin v)) \<and> 0 \<le> v \<and> v \<le> 100) \<and>
         (length data < 14 \<longrightarrow>
            calculate_technical_indicators data ''rsi'' = Some (PNum (Fin 50))) \<and>
         (14 \<le> length data \<and> (\<forall>d\<in>set (trailing_deltas data). \<not> flt d (Fin 0)) \<longrightarrow>
            calculate_technical_indicators data ''rsi'' =
              Some (PNum (Fin (if \<exists>d\<in>set (trailing_deltas data). fgt d (Fin 0) then 100 else 50))))"
proof (cases "length data < 14")
  case True
  have "last (rolling 14 series_mean (map gain_of (diff (close_column data)))) = NaN"
    by (rule last_rolling_mean_short [OF assms True])
  then have "calculate_technical_indicators data ''rsi'' = Some (PNum (Fin 50))"
    unfolding technicals_rsi [OF assms] by (simp add: rsi_of_NaN)
  with True show ?thesis by simp
next
  case False
  then have n: "14 \<le> length data" by simp
  have "\<exists>m\<ge>0. last (rolling 14 series_mean (map gain_of (diff (close_column data)))) = Fin m \<and>
           (m = 0 \<longleftrightarrow> (\<forall>d\<in>set (trailing_deltas data). gain_of d = Fin 0))"
    by (rule last_rolling_mean_window [of data gain_of, OF n]) (rule gain_of_fin)
  then obtain G where
    G: "0 \<le> G" "last (rolling 14 series_mean (map gain_of (diff (close_column data)))) = Fin G"
       "G = 0 \<longleftrightarrow> (\<forall>d\<in>set (trailing_deltas data). gain_of d = Fin 0)" by blast
  have "\<exists>m\<ge>0. last (rolling 14 series_mean (map loss_of (diff (close_column data)))) = Fin m \<and>
           (m = 0 \<longleftrightarrow> (\<forall>d\<in>set (trailing_deltas data). loss_of d = Fin 0))"
    by (rule last_rolling_mean_window [of data loss_of, OF n]) (rule loss_of_fin)
  then obtain L where
    L: "0 \<le> L" "last (rolling 14 series_mean (map loss_of (diff (close_column data)))) = Fin L"
       "L = 0 \<longleftrightarrow> (\<forall>d\<in>set (trailing_deltas data). loss_of d = Fin 0)" by blast
  have gz: "(gain_of d = Fin 0) = (\<not> fgt d (Fin 0))" if "d \<in> set (trailing_deltas data)" for d
    by (rule gain_of_zero) (rule trailing_deltas_elems [OF that])
  have lz: "(loss_of d = Fin 0) = (\<not> flt d (Fin 0))" if "d \<in> set (trailing_deltas data)" for d
    by (rule loss_of_zero) (rule trailing_deltas_elems [OF that])
  have "(\<forall>d\<in>set (trailing_deltas data). gain_of d = Fin 0)
          = (\<forall>d\<in>set (trailing_deltas data). \<not> fgt d (Fin 0))"
    by (rule ball_cong [OF refl]) (rule gz)
  with G(3) have G0: "G = 0 \<longleftrightarrow> (\<forall>d\<in>set (trailing_deltas data). \<not> fgt d (Fin 0))"
    by simp
  have "(\<forall>d\<in>set (trailing_deltas data). loss_of d = Fin 0)
          = (\<forall>d\<in>set (trailing_deltas data). \<not> flt d (Fin 0))"
    by (rule ball_cong [OF refl]) (rule lz)
  with L(3) have L0: "L = 0 \<longleftrightarrow> (\<forall>d\<in>set (trailing_deltas data). \<not> flt d (Fin 0))"
    by simp
  have r: "calculate_technical_indicators data ''rsi'' =
     Some (PNum (if rsi_of (Fin G) (Fin L) \<noteq> NaN then py_round (rsi_of (Fin G) (Fin L)) 1 else Fin 50))"
    unfolding technicals_rsi [OF assms] G(2) L(2) Let_def by simp
  note c = rsi_of_cases [OF G(1) L(1)]
  have range: "\<exists>v. calculate_technical_indicators data ''rsi'' = Some (PNum (Fin v)) \<and> 0 \<le> v \<and> v \<le> 100"
  proof (cases "L = 0")
    case True
    show ?thesis
    proof (cases "G = 0")
      case True
      with \<open>L = 0\<close> c have "rsi_of (Fin G) (Fin L) = NaN" by blast
      then show ?thesis unfolding r by simp
    next
      case False
      with G(1) have "0 < G" by simp
      with \<open>L = 0\<close> c have "rsi_of (Fin G) (Fin L) = Fin 100" by blast
      then show ?thesis unfolding r using py_round_hundred by (simp del: py_round.simps)
    qed
  next
    case False
    with L(1) have "0 < L" by simp
    with c obtain v where v: "rsi_of (Fin G) (Fin L) = Fin v" "0 \<le> v" "v < 100" by blast
    from py_round_percent [of v] v obtain u where
      "py_round (Fin v) 1 = Fin u" "0 \<le> u" "u \<le> 100" by auto
    then show ?thesis unfolding r v(1) by (simp del: py_round.simps)
  qed
  have sat: "calculate_technical_indicators data ''rsi'' =
              Some (PNum (Fin (if \<exists>d\<in>set (trailing_deltas data). fgt d (Fin 0) then 100 else 50)))"
    if nl: "\<forall>d\<in>set (trailing_deltas data). \<not> flt d (Fin 0)"
  proof -
    from nl L0 have l: "L = 0" by simp
    show ?thesis
    proof (cases "\<exists>d\<in>set (trailing_deltas data). fgt d (Fin 0)")
      case True
      with G0 G(1) have "0 < G" by auto
      with l c have "rsi_of (Fin G) (Fin L) = Fin 100" by blast
      with True show ?thesis unfolding r using py_round_hundred by (simp del: py_round.simps)
    next
      case False
      with G0 have "G = 0" by simp
      with l c have "rsi_of (Fin G) (Fin L) = NaN" by blast
      with False show ?thesis unfolding r by simp
    qed
  qed
  show ?thesis using range sat False by simp
qed

lemma diff_constant: "diff (replicate (Suc m) (Fin c)) = NaN # replicate m (Fin 0)"
proof -
  have "map2 (\<lambda>prev cur. fsub cur prev) (replicate (Suc m) (Fin c)) (replicate m (Fin c))
          = replicate (min (Suc m) m) (fsub (Fin c) (Fin c))"
    by (rule map2_replicate)
  also have "\<dots> = replicate m (Fin 0)"
    by (simp add: fsub_def)
  finally show ?thesis by (simp add: diff_def)
qed

lemma trailing_deltas_flat:
  "trailing_deltas (replicate 15 (flat_bar 100)) = replicate 14 (Fin 0)"
proof -
  have n: "(15::nat) = Suc 14" by simp
  have c: "close_column (replicate 15 (flat_bar 100)) = replicate (Suc 14) (Fin 100)"
    unfolding n close_column_def by (simp add: flat_bar_def del: replicate_Suc)
  show ?thesis
    unfolding trailing_deltas_def c diff_constant Let_def by simp
qed

text \<open>
  Claim C5 states an RSI of exactly 100 whenever no delta of the trailing window is
  negative. Over fifteen bars of one constant close every delta of the window is 0,
  average gain and average loss are both 0, their quotient is NaN, and the reported
  RSI is the default 50.
\<close>

theorem rsi_flat_window_counterexample:
  "trailing_deltas (replicate 15 (flat_bar 100)) = replicate 14 (Fin 0) \<and>
   \<not> flt (Fin 0) (Fin 0) \<and>
   calculate_technical_indicators (replicate 15 (flat_bar 100)) ''rsi'' = Some (PNum (Fin 50)) \<and>
   PNum (Fin 50) \<noteq> PNum (Fin 100)"
proof -
  have ne: "replicate 15 (flat_bar 100) \<noteq> []" by simp
  from rsi_reported [OF ne] show ?thesis
    by (simp add: trailing_deltas_flat fgt_def)
qed

text \<open>
  Claim C5, amended. For every price series the RSI that is reported (and the 50 the
  scorer reads when none is) lies in the closed interval from 0 to 100. Whenever
  there are at least 14 bars and no delta of the trailing window is negative, the
  division of the average gain by the average loss 0 does not raise, and the RSI is
  exactly 100 when some delta of the window is positive and exactly 50 when all are
  zero.
\<close>

theorem rsi_range_and_saturation:
  "(\<exists>v. dict_get (calculate_technical_indicators data) ''rsi'' (PNum (Fin 50)) = PNum (Fin v)
        \<and> 0 \<le> v \<and> v \<le> 100) \<and>
   (14 \<le> length data \<and> (\<forall>d\<in>set (trailing_deltas data). \<not> flt d (Fin 0)) \<longrightarrow>
      calculate_technical_indicators data ''rsi'' =
        Some (PNum (Fin (if \<exists>d\<in>set (trailing_deltas data). fgt d (Fin 0) then 100 else 50))))"
proof (cases "data = []")
  case True
  then show ?thesis
    by (simp add: calculate_technical_indicators_def dict_get_def)
next
  case False
  from rsi_reported [OF False] show ?thesis
    by (auto simp: dict_get_def)
qed

lemma trailing_deltas_rising: "trailing_deltas rising_bars =
     [Fin 1, Fin 1, Fin 1, Fin 1, Fin 1, Fin 1, Fin 1, Fin 1, Fin 1, Fin 1,
      Fin 1, Fin 1, Fin 1, Fin 1]"
  by (simp add: trailing_deltas_def rising_bars_def close_column_def diff_def flat_bar_def
      fsub_def Let_def)

theorem rsi_range_and_saturation_witness:
  "14 \<le> length rising_bars \<and> trailing_deltas rising_bars =
     [Fin 1, Fin 1, Fin 1, Fin 1, Fin 1, Fin 1, Fin 1, Fin 1, Fin 1, Fin 1,
      Fin 1, Fin 1, Fin 1, Fin 1] \<and>
   calculate_technical_indicators rising_bars ''rsi'' = Some (PNum (Fin 100))"
proof -
  have l: "14 \<le> length rising_bars" by (simp add: rising_bars_def)
  have nl: "\<forall>d\<in>set (trailing_deltas rising_bars). \<not> flt d (Fin 0)"
    by (simp add: trailing_deltas_rising)
  have p: "\<exists>d\<in>set (trailing_deltas rising_bars). fgt d (Fin 0)"
    by (simp add: trailing_deltas_rising fgt_def)
  from rsi_range_and_saturation [of rising_bars] l nl p
  have "calculate_technical_indicators rising_bars ''rsi'' = Some (PNum (Fin 100))"
    by simp
  with l trailing_deltas_rising show ?thesis by simp
qed

end
